theory Spec2Isabelle
  imports Complex_Main
begin

section \<open>The session object: class BlobGame\<close>

text \<open>
  A JavaScript number is an IEEE 754 double. The numbers of this program are player
  counts, amounts and counters, all integers, so a number is modelled as the integer it
  holds, or as an infinity or \<open>NaN\<close>, which sums and products of integers can reach; zero
  has no sign here. An integer is a double when it has at most 53 significant bits, which
  every integer up to \<open>2 ^ 53\<close> has. \<open>expo m\<close> is the number of low bits that a double
  cannot keep of \<open>m\<close>, \<open>round_nat\<close> rounds a magnitude to the nearest double, ties to
  the even significand, and \<open>fround\<close> is the double that an exact integer result becomes:
  beyond the largest double it is an infinity.

  A \<open>Date\<close> is its time value, the number of milliseconds since the epoch, which is what
  \<open><\<close> and \<open>>\<close> compare on two dates; identifiers are integers that no arithmetic
  touches.
\<close>

datatype number = Num int | Infinity | NegInfinity | NaN

function expo :: "nat \<Rightarrow> nat" where
  "expo m = (if m < 2 ^ 53 then 0 else Suc (expo (m div 2)))"
  by pat_completeness auto
termination
  by (relation "measure (\<lambda>m. m)") auto

declare expo.simps [simp del]

definition round_nat :: "nat \<Rightarrow> nat" where
  "round_nat m =
     (let q = 2 ^ expo m; d = m div q; r = m mod q
      in if 2 * r < q then d * q
         else if q < 2 * r then (d + 1) * q
         else if even d then d * q else (d + 1) * q)"

definition fround :: "int \<Rightarrow> number" where
  "fround n =
     (let r = int (round_nat (nat \<bar>n\<bar>))
      in if 2 ^ 1024 \<le> r then (if 0 \<le> n then Infinity else NegInfinity)
         else Num (if 0 \<le> n then r else - r))"

definition is_double :: "number \<Rightarrow> bool" where
  "is_double x = (case x of Num n \<Rightarrow> fround n = Num n | _ \<Rightarrow> True)"

text \<open>
  The operators \<open>-x\<close>, \<open>x + y\<close>, \<open>x - y\<close>, \<open>x * y\<close> and \<open>x <= y\<close> on such numbers,
  and \<open>Math.ceil(x / 2)\<close>: halving a double that holds an integer is exact, so the
  ceiling is that of the exact half.
\<close>

fun js_neg :: "number \<Rightarrow> number" where
  "js_neg (Num a) = Num (- a)"
| "js_neg Infinity = NegInfinity"
| "js_neg NegInfinity = Infinity"
| "js_neg NaN = NaN"

fun js_add :: "number \<Rightarrow> number \<Rightarrow> number" where
  "js_add (Num a) (Num b) = fround (a + b)"
| "js_add NaN y = NaN"
| "js_add x NaN = NaN"
| "js_add Infinity NegInfinity = NaN"
| "js_add NegInfinity Infinity = NaN"
| "js_add Infinity y = Infinity"
| "js_add x Infinity = Infinity"
| "js_add NegInfinity y = NegInfinity"
| "js_add x NegInfinity = NegInfinity"

definition js_sub :: "number \<Rightarrow> number \<Rightarrow> number" where
  "js_sub x y = js_add x (js_neg y)"

fun number_sign :: "number \<Rightarrow> int" where
  "number_sign (Num a) = sgn a"
| "number_sign Infinity = 1"
| "number_sign NegInfinity = - 1"
| "number_sign NaN = 0"

definition js_mul :: "number \<Rightarrow> number \<Rightarrow> number" where
  "js_mul x y =
     (case (x, y) of
        (Num a, Num b) \<Rightarrow> fround (a * b)
      | _ \<Rightarrow>
          if x = NaN \<or> y = NaN \<or> number_sign x * number_sign y = 0 then NaN
          else if 0 < number_sign x * number_sign y then Infinity
          else NegInfinity)"

fun js_ceil_half :: "number \<Rightarrow> number" where
  "js_ceil_half (Num a) = Num \<lceil>real_of_int a / 2\<rceil>"
| "js_ceil_half x = x"


type_synonym date = int

datatype error =
    InvalidStory string
  | Rejected
  | PersistenceFailure
  | TypeError
  | ConfigurationMissing
  | EventCategoryNotFound string
  | PlatformFailure

text \<open>
  Modelled from the spec: the field \<open>dateEnded\<close> ("optional timestamp; absence means the
  session is running"), whose accessor \<open>getDateEnded\<close> and setter \<open>endGame\<close> the
  service calls and the class text does not contain. The other fields are those of the
  class, \<open>id\<close> under the name \<open>id_bg\<close>.
\<close>

record BlobGame =
  id_bg :: int
  dateCreated :: date
  numberOfPlayers :: number
  numberOfDamageDealtToBlob :: number
  numberOfCluesOnAct1 :: number
  numberOfCounterMeasures :: number
  story :: "string option"
  dateEnded :: "date option"

definition PER_INVESTIGATOR_TOTAL_HEALTH :: number where
  "PER_INVESTIGATOR_TOTAL_HEALTH = Num 15"

definition PER_INVESTIGATOR_ACT1_CLUE_THRESHOLD :: number where
  "PER_INVESTIGATOR_ACT1_CLUE_THRESHOLD = Num 15"

definition POSSIBLE_STORIES :: "string list" where
  "POSSIBLE_STORIES =
     [''RESCUE_THE_CHEMIST'', ''RECOVER_THE_SAMPLE'', ''DRIVE_OFF_THE_MIGO'',
      ''DEFUSE_THE_EXPLOSIVES'']"

text \<open>The constructor.\<close>

definition BlobGame_new :: "int \<Rightarrow> date \<Rightarrow> number \<Rightarrow> BlobGame" where
  "BlobGame_new i d n =
     \<lparr> id_bg = i, dateCreated = d, numberOfPlayers = n,
       numberOfDamageDealtToBlob = Num 0, numberOfCluesOnAct1 = Num 0,
       numberOfCounterMeasures = js_ceil_half n,
       story = None, dateEnded = None \<rparr>"

definition getBlobTotalHealth :: "BlobGame \<Rightarrow> number" where
  "getBlobTotalHealth g = js_mul (numberOfPlayers g) PER_INVESTIGATOR_TOTAL_HEALTH"

definition getBlobRemainingHealth :: "BlobGame \<Rightarrow> number" where
  "getBlobRemainingHealth g = js_sub (getBlobTotalHealth g) (numberOfDamageDealtToBlob g)"

definition getAct1ClueThreshold :: "BlobGame \<Rightarrow> number" where
  "getAct1ClueThreshold g = js_mul (numberOfPlayers g) PER_INVESTIGATOR_ACT1_CLUE_THRESHOLD"

definition dealDamageToBlob :: "number \<Rightarrow> BlobGame \<Rightarrow> BlobGame" where
  "dealDamageToBlob amount g =
     g\<lparr>numberOfDamageDealtToBlob := js_add (numberOfDamageDealtToBlob g) amount\<rparr>"

definition placeCluesOnAct1 :: "number \<Rightarrow> BlobGame \<Rightarrow> BlobGame" where
  "placeCluesOnAct1 numberOfClues g =
     g\<lparr>numberOfCluesOnAct1 := js_add (numberOfCluesOnAct1 g) numberOfClues\<rparr>"

definition gainCounterMeasures :: "number \<Rightarrow> BlobGame \<Rightarrow> BlobGame" where
  "gainCounterMeasures n g =
     g\<lparr>numberOfCounterMeasures := js_add (numberOfCounterMeasures g) n\<rparr>"

definition spendCounterMeasures :: "number \<Rightarrow> BlobGame \<Rightarrow> BlobGame" where
  "spendCounterMeasures n g =
     g\<lparr>numberOfCounterMeasures := js_sub (numberOfCounterMeasures g) n\<rparr>"

text \<open>
  \<open>chooseStory\<close> throws before it assigns. The result pairs what was thrown (\<open>None\<close>
  when the method returned) with the object as the call left it.
\<close>

definition chooseStory :: "string \<Rightarrow> BlobGame \<Rightarrow> error option \<times> BlobGame" where
  "chooseStory st g =
     (if st \<notin> set POSSIBLE_STORIES then (Some (InvalidStory st), g)
      else (None, g\<lparr>story := Some st\<rparr>))"

text \<open>
  Modelled from the spec: \<open>endGame\<close>, which "stamps \<open>dateEnded\<close>" with the date
  it is given.
\<close>

definition endGame :: "date \<Rightarrow> BlobGame \<Rightarrow> BlobGame" where
  "endGame d g = g\<lparr>dateEnded := Some d\<rparr>"

section \<open>The orchestration facade: class BlobGameService\<close>

text \<open>
  The service keeps one table from guild identifier to the current game object. The
  second field is what the repositories of the guilds have persisted.
\<close>

record BlobGameService =
  currentGameByGuildId :: "string \<rightharpoonup> BlobGame"
  persistedGames :: "string \<Rightarrow> BlobGame list"

text \<open>
  Modelled from the spec: \<open>BlobGameFileRepository\<close>, the session store of one guild
  ("per-community collection of session records, append/list"; every mutation is followed by
  a step that "persists the full updated session list"). \<open>load\<close> lists the stored records.
  \<open>save\<close> writes the list with the record of the same identifier replaced, or the record
  appended; its first argument tells whether the write to the resource store succeeded, and
  a failed write rejects and stores nothing.
\<close>

fun upsert :: "BlobGame \<Rightarrow> BlobGame list \<Rightarrow> BlobGame list" where
  "upsert g [] = [g]"
| "upsert g (x # xs) = (if id_bg x = id_bg g then g # xs else x # upsert g xs)"

definition repository_load :: "BlobGameService \<Rightarrow> string \<Rightarrow> BlobGame list" where
  "repository_load svc guildId = persistedGames svc guildId"

definition repository_save ::
  "bool \<Rightarrow> string \<Rightarrow> BlobGame \<Rightarrow> BlobGameService \<Rightarrow> error option \<times> BlobGameService" where
  "repository_save writeOk guildId g svc =
     (if writeOk
      then (None, svc\<lparr>persistedGames :=
                        (persistedGames svc)(guildId := upsert g (persistedGames svc guildId))\<rparr>)
      else (Some PersistenceFailure, svc))"

text \<open>
  \<open>POSSIBLE_STORIES[i]\<close>: an index outside the array reads \<open>undefined\<close>.
\<close>

definition story_at :: "int \<Rightarrow> string option" where
  "story_at i =
     (if 0 \<le> i \<and> i < int (length POSSIBLE_STORIES) then Some (POSSIBLE_STORIES ! nat i)
      else None)"

text \<open>
  \<open>startNewGame\<close>. The parameters \<open>nextId\<close>, \<open>now\<close> and \<open>rnd\<close> are what
  \<open>repository.nextId()\<close>, \<open>new Date()\<close> and
  \<open>randomService.getRandomInt(0, POSSIBLE_STORIES.length - 1)\<close> returned. The game is
  stored in the table before the story is chosen, and \<open>game\<close> aliases the table's entry.
  An \<open>undefined\<close> story is not in the array, so \<open>chooseStory\<close> throws on it.
\<close>

definition startNewGame ::
  "bool \<Rightarrow> int \<Rightarrow> date \<Rightarrow> int \<Rightarrow> string \<Rightarrow> number \<Rightarrow> BlobGameService
     \<Rightarrow> error option \<times> BlobGameService" where
  "startNewGame writeOk nextId now rnd guildId players svc =
     (let game = BlobGame_new nextId now players;
          svc1 = svc\<lparr>currentGameByGuildId := (currentGameByGuildId svc)(guildId \<mapsto> game)\<rparr>
      in case story_at rnd of
           None \<Rightarrow> (Some (InvalidStory ''undefined''), svc1)
         | Some randomStory \<Rightarrow>
             (case chooseStory randomStory game of
                (Some e, game') \<Rightarrow>
                  (Some e, svc1\<lparr>currentGameByGuildId :=
                                   (currentGameByGuildId svc1)(guildId \<mapsto> game')\<rparr>)
              | (None, game') \<Rightarrow>
                  repository_save writeOk guildId game'
                    (svc1\<lparr>currentGameByGuildId :=
                            (currentGameByGuildId svc1)(guildId \<mapsto> game')\<rparr>)))"

text \<open>
  \<open>sortByDateDesc\<close> and \<open>Array.prototype.sort\<close>, which is a stable sort: elements
  that the comparison function calls equal keep their order.
\<close>

definition sortByDateDesc :: "BlobGame \<Rightarrow> BlobGame \<Rightarrow> int" where
  "sortByDateDesc bg1 bg2 =
     (if dateCreated bg1 < dateCreated bg2 then 1
      else if dateCreated bg1 > dateCreated bg2 then - 1
      else 0)"

fun insert_by :: "('a \<Rightarrow> 'a \<Rightarrow> int) \<Rightarrow> 'a \<Rightarrow> 'a list \<Rightarrow> 'a list" where
  "insert_by cmp x [] = [x]"
| "insert_by cmp x (y # ys) = (if cmp x y \<le> 0 then x # y # ys else y # insert_by cmp x ys)"

definition array_sort :: "('a \<Rightarrow> 'a \<Rightarrow> int) \<Rightarrow> 'a list \<Rightarrow> 'a list" where
  "array_sort cmp xs = foldr (insert_by cmp) xs []"

text \<open>
  \<open>continueLatestGame\<close> returns the creation date of the game it made current, or
  \<open>undefined\<close> (here \<open>None\<close>) when it made none current.
\<close>

definition continueLatestGame :: "string \<Rightarrow> BlobGameService \<Rightarrow> date option \<times> BlobGameService" where
  "continueLatestGame guildId svc =
     (let availableBlobGames = repository_load svc guildId
      in if length availableBlobGames = 0 then (None, svc)
         else
           let runningGames = filter (\<lambda>game. dateEnded game = None) availableBlobGames
           in if length runningGames = 0 then (None, svc)
              else
                let current = hd (array_sort sortByDateDesc runningGames)
                in (Some (dateCreated current),
                    svc\<lparr>currentGameByGuildId := (currentGameByGuildId svc)(guildId \<mapsto> current)\<rparr>))"

text \<open>
  The four mutating calls have one shape: reject when the guild has no current game, else
  mutate the current game in the table, then return the promise of \<open>save\<close>.
\<close>

definition mutate_and_save ::
  "(BlobGame \<Rightarrow> BlobGame) \<Rightarrow> bool \<Rightarrow> string \<Rightarrow> BlobGameService
     \<Rightarrow> error option \<times> BlobGameService" where
  "mutate_and_save f writeOk guildId svc =
     (case currentGameByGuildId svc guildId of
        None \<Rightarrow> (Some Rejected, svc)
      | Some game \<Rightarrow>
          repository_save writeOk guildId (f game)
            (svc\<lparr>currentGameByGuildId := (currentGameByGuildId svc)(guildId \<mapsto> f game)\<rparr>))"

definition Service_dealDamageToBlob ::
  "bool \<Rightarrow> string \<Rightarrow> number \<Rightarrow> BlobGameService \<Rightarrow> error option \<times> BlobGameService" where
  "Service_dealDamageToBlob writeOk guildId numberOfDamageDealt =
     mutate_and_save (dealDamageToBlob numberOfDamageDealt) writeOk guildId"

definition Service_placeCluesOnAct1 ::
  "bool \<Rightarrow> string \<Rightarrow> number \<Rightarrow> BlobGameService \<Rightarrow> error option \<times> BlobGameService" where
  "Service_placeCluesOnAct1 writeOk guildId numberOfClues =
     mutate_and_save (placeCluesOnAct1 numberOfClues) writeOk guildId"

definition Service_gainCounterMeasures ::
  "bool \<Rightarrow> string \<Rightarrow> number \<Rightarrow> BlobGameService \<Rightarrow> error option \<times> BlobGameService" where
  "Service_gainCounterMeasures writeOk guildId n =
     mutate_and_save (gainCounterMeasures n) writeOk guildId"

definition Service_spendCounterMeasures ::
  "bool \<Rightarrow> string \<Rightarrow> number \<Rightarrow> BlobGameService \<Rightarrow> error option \<times> BlobGameService" where
  "Service_spendCounterMeasures writeOk guildId n =
     mutate_and_save (spendCounterMeasures n) writeOk guildId"

text \<open>The read accessors answer \<open>undefined\<close> when the guild has no current game.\<close>

definition Service_getBlobTotalHealth :: "string \<Rightarrow> BlobGameService \<Rightarrow> number option" where
  "Service_getBlobTotalHealth guildId svc =
     map_option getBlobTotalHealth (currentGameByGuildId svc guildId)"

definition Service_getBlobRemainingHealth :: "string \<Rightarrow> BlobGameService \<Rightarrow> number option" where
  "Service_getBlobRemainingHealth guildId svc =
     map_option getBlobRemainingHealth (currentGameByGuildId svc guildId)"

definition Service_getNumberOfDamageDealtToBlob :: "string \<Rightarrow> BlobGameService \<Rightarrow> number option" where
  "Service_getNumberOfDamageDealtToBlob guildId svc =
     map_option numberOfDamageDealtToBlob (currentGameByGuildId svc guildId)"

definition Service_getAct1ClueThreshold :: "string \<Rightarrow> BlobGameService \<Rightarrow> number option" where
  "Service_getAct1ClueThreshold guildId svc =
     map_option getAct1ClueThreshold (currentGameByGuildId svc guildId)"

definition Service_getNumberOfCluesOnAct1 :: "string \<Rightarrow> BlobGameService \<Rightarrow> number option" where
  "Service_getNumberOfCluesOnAct1 guildId svc =
     map_option numberOfCluesOnAct1 (currentGameByGuildId svc guildId)"

definition Service_getNumberOfCounterMeasures :: "string \<Rightarrow> BlobGameService \<Rightarrow> number option" where
  "Service_getNumberOfCounterMeasures guildId svc =
     map_option numberOfCounterMeasures (currentGameByGuildId svc guildId)"

definition Service_getStory :: "string \<Rightarrow> BlobGameService \<Rightarrow> string option" where
  "Service_getStory guildId svc =
     Option.bind (currentGameByGuildId svc guildId) story"

section \<open>The channel-group registry: class MassMultiplayerEventService\<close>

subsection \<open>The messaging platform and the configuration\<close>

text \<open>
  A guild's channel cache is a collection keyed by channel identifier that keeps insertion
  order; \<open>cache.find\<close> returns the first channel, in that order, that satisfies the
  predicate. A channel's \<open>parent\<close> is resolved through the cache from its parent
  identifier and is \<open>null\<close> when there is none or it does not resolve.
\<close>

datatype ChannelType = GUILD_TEXT | GUILD_VOICE | GUILD_CATEGORY | GUILD_NEWS

record Channel =
  channelId :: string
  channelName :: string
  channelType :: ChannelType
  parentId :: "string option"

record Guild =
  guild_id :: string
  cache :: "Channel list"

definition parent :: "Guild \<Rightarrow> Channel \<Rightarrow> Channel option" where
  "parent guild channel =
     (case parentId channel of
        None \<Rightarrow> None
      | Some p \<Rightarrow> List.find (\<lambda>c. channelId c = p) (cache guild))"

fun cache_set :: "Channel \<Rightarrow> Channel list \<Rightarrow> Channel list" where
  "cache_set ch [] = [ch]"
| "cache_set ch (c # cs) = (if channelId c = channelId ch then ch # cs else c # cache_set ch cs)"

text \<open>
  Modelled from the spec: \<open>EnvService\<close>, of which the registry reads two configuration
  values, the name of the parent category and the name of the admin channel, each a string
  or unset. \<open>falsy\<close> is JavaScript's \<open>!v\<close> on such a value: unset or the empty string.
\<close>

record EnvService =
  massMultiplayerEventCategoryName :: "string option"
  massMultiplayerEventAdminChannelName :: "string option"

definition falsy :: "string option \<Rightarrow> bool" where
  "falsy v = (v = None \<or> v = Some [])"

text \<open>
  What the platform and the resource store answer during one call: the identifier given to
  a channel created under a name (\<open>None\<close> when the creation is rejected), and whether
  \<open>setParent\<close>, \<open>delete\<close> and \<open>send\<close> on the channel of an identifier, and the write
  of the state file, succeed.
\<close>

record Platform =
  createResult :: "string \<Rightarrow> string option"
  setParentOk :: "string \<Rightarrow> bool"
  deleteOk :: "string \<Rightarrow> bool"
  sendOk :: "string \<Rightarrow> bool"
  saveResourceOk :: bool

definition channels_create ::
  "Platform \<Rightarrow> string \<Rightarrow> ChannelType \<Rightarrow> Guild \<Rightarrow> (Channel \<times> Guild) option" where
  "channels_create P nm ty guild =
     (case createResult P nm of
        None \<Rightarrow> None
      | Some newId \<Rightarrow>
          let ch = \<lparr> channelId = newId, channelName = nm, channelType = ty, parentId = None \<rparr>
          in Some (ch, guild\<lparr>cache := cache_set ch (cache guild)\<rparr>))"

definition setParent :: "Platform \<Rightarrow> string \<Rightarrow> Channel \<Rightarrow> Guild \<Rightarrow> Guild option" where
  "setParent P categoryId ch guild =
     (if setParentOk P (channelId ch)
      then Some (guild\<lparr>cache := cache_set (ch\<lparr>parentId := Some categoryId\<rparr>) (cache guild)\<rparr>)
      else None)"

text \<open>The decimal rendering of a number in a template literal.\<close>

definition digit_char :: "nat \<Rightarrow> char" where
  "digit_char n = ''0123456789'' ! n"

function string_of_nat :: "nat \<Rightarrow> string" where
  "string_of_nat n =
     (if n < 10 then [digit_char n] else string_of_nat (n div 10) @ [digit_char (n mod 10)])"
  by pat_completeness auto
termination
  by (relation "measure (\<lambda>n. n)") auto

declare string_of_nat.simps [simp del]

definition string_of_int :: "int \<Rightarrow> string" where
  "string_of_int i = (if i < 0 then CHR ''-'' # string_of_nat (nat (- i)) else string_of_nat (nat i))"

subsection \<open>The service\<close>

text \<open>
  The table from guild identifier to the list of group channel identifiers, and the state
  file \<open>massMultiplayerEventsGroups.json\<close> of each guild.
\<close>

record MassMultiplayerEventService =
  groupChannelsIdByGuildId :: "string \<rightharpoonup> string list"
  stateFiles :: "string \<rightharpoonup> string list"

definition initial_service :: MassMultiplayerEventService where
  "initial_service = \<lparr> groupChannelsIdByGuildId = Map.empty, stateFiles = Map.empty \<rparr>"

definition runningEvent :: "MassMultiplayerEventService \<Rightarrow> Guild \<Rightarrow> bool" where
  "runningEvent svc guild =
     (case groupChannelsIdByGuildId svc (guild_id guild) of
        None \<Rightarrow> False
      | Some ids \<Rightarrow> length ids \<noteq> 0)"

definition getAdminChannel :: "EnvService \<Rightarrow> Guild \<Rightarrow> error + Channel option" where
  "getAdminChannel env guild =
     (if falsy (massMultiplayerEventCategoryName env)
         \<and> falsy (massMultiplayerEventAdminChannelName env)
      then Inl ConfigurationMissing
      else Inr (List.find
                  (\<lambda>channel.
                     parent guild channel \<noteq> None
                     \<and> map_option channelName (parent guild channel)
                         = massMultiplayerEventCategoryName env
                     \<and> channelType channel = GUILD_TEXT
                     \<and> Some (channelName channel) = massMultiplayerEventAdminChannelName env)
                  (cache guild)))"

definition getChannel :: "Guild \<Rightarrow> string \<Rightarrow> Channel option" where
  "getChannel guild groupId = List.find (\<lambda>channel. channelId channel = groupId) (cache guild)"

definition getCategoryIdByName :: "Guild \<Rightarrow> string \<Rightarrow> string option" where
  "getCategoryIdByName guild categoryName =
     map_option channelId
       (List.find (\<lambda>guildChannel. channelType guildChannel = GUILD_CATEGORY
                                  \<and> channelName guildChannel = categoryName)
          (cache guild))"

text \<open>
  \<open>saveState\<close> catches and logs a failed write. Without a list for the guild there is
  nothing to serialise and the file stays as it is.
\<close>

definition saveState ::
  "Platform \<Rightarrow> string \<Rightarrow> MassMultiplayerEventService \<Rightarrow> MassMultiplayerEventService" where
  "saveState P gid svc =
     (case groupChannelsIdByGuildId svc gid of
        None \<Rightarrow> svc
      | Some ids \<Rightarrow>
          if saveResourceOk P then svc\<lparr>stateFiles := (stateFiles svc)(gid \<mapsto> ids)\<rparr> else svc)"

text \<open>
  The body of the \<open>for\<close> loop of \<open>createGroupChannels\<close>, run for the group numbers
  \<open>1, \<dots>, numberOfGroups\<close> in turn. A rejected platform call leaves the loop with what
  the earlier calls did. The number of groups is an integer below \<open>2 ^ 53\<close>, where the
  loop counter is exact.
\<close>

fun createLoop ::
  "Platform \<Rightarrow> string \<Rightarrow> int list \<Rightarrow> MassMultiplayerEventService \<times> Guild
     \<Rightarrow> error option \<times> MassMultiplayerEventService \<times> Guild" where
  "createLoop P categoryId [] (svc, guild) = (None, svc, guild)"
| "createLoop P categoryId (groupNumber # rest) (svc, guild) =
     (case channels_create P (''groupe-'' @ string_of_int groupNumber) GUILD_TEXT guild of
        None \<Rightarrow> (Some PlatformFailure, svc, guild)
      | Some (groupChannel, guild1) \<Rightarrow>
     (case setParent P categoryId groupChannel guild1 of
        None \<Rightarrow> (Some PlatformFailure, svc, guild1)
      | Some guild2 \<Rightarrow>
     (case channels_create P (''voice-groupe-'' @ string_of_int groupNumber) GUILD_VOICE guild2 of
        None \<Rightarrow> (Some PlatformFailure, svc, guild2)
      | Some (groupVoiceChannel, guild3) \<Rightarrow>
     (case setParent P categoryId groupVoiceChannel guild3 of
        None \<Rightarrow> (Some PlatformFailure, svc, guild3)
      | Some guild4 \<Rightarrow>
          createLoop P categoryId rest
            (svc\<lparr>groupChannelsIdByGuildId :=
                   (groupChannelsIdByGuildId svc)
                     (guild_id guild \<mapsto>
                        (case groupChannelsIdByGuildId svc (guild_id guild) of
                           Some ids \<Rightarrow> ids @ [channelId groupChannel, channelId groupVoiceChannel]
                         | None \<Rightarrow> [channelId groupChannel, channelId groupVoiceChannel]))\<rparr>,
             guild4)))))"

definition createGroupChannels ::
  "EnvService \<Rightarrow> Platform \<Rightarrow> int \<Rightarrow> MassMultiplayerEventService \<times> Guild
     \<Rightarrow> error option \<times> MassMultiplayerEventService \<times> Guild" where
  "createGroupChannels env P numberOfGroups st =
     (case massMultiplayerEventCategoryName env of
        None \<Rightarrow> (Some ConfigurationMissing, st)
      | Some categoryName \<Rightarrow>
          if categoryName = [] then (Some ConfigurationMissing, st)
          else
            (case getCategoryIdByName (snd st) categoryName of
               None \<Rightarrow> (Some (EventCategoryNotFound categoryName), st)
             | Some categoryId \<Rightarrow>
                 if categoryId = [] then (Some (EventCategoryNotFound categoryName), st)
                 else
                   (case createLoop P categoryId [1..numberOfGroups] st of
                      (Some e, st') \<Rightarrow> (Some e, st')
                    | (None, svc', guild') \<Rightarrow>
                        (None, saveState P (guild_id guild') svc', guild'))))"

text \<open>
  \<open>cleanGroupChannels\<close> also returns the identifiers of the channels on which it called
  \<open>delete\<close>. All lookups are made before any deletion takes effect; the deletions run
  together, and one that is rejected makes \<open>Promise.all\<close> reject, so that the list is
  neither cleared nor saved. Calling \<open>map\<close> on a list that is \<open>undefined\<close> throws.
\<close>

definition cleanGroupChannels ::
  "Platform \<Rightarrow> MassMultiplayerEventService \<times> Guild
     \<Rightarrow> error option \<times> string list \<times> MassMultiplayerEventService \<times> Guild" where
  "cleanGroupChannels P st =
     (let svc = fst st; guild = snd st
      in case groupChannelsIdByGuildId svc (guild_id guild) of
           None \<Rightarrow> (Some TypeError, [], svc, guild)
         | Some groupsId \<Rightarrow>
             let deleted = concat (map (\<lambda>groupId.
                                          case getChannel guild groupId of
                                            Some channel \<Rightarrow> [channelId channel]
                                          | None \<Rightarrow> [])
                                     groupsId);
                 guild' = guild\<lparr>cache := filter (\<lambda>c. \<not> (channelId c \<in> set deleted
                                                          \<and> deleteOk P (channelId c)))
                                               (cache guild)\<rparr>
             in if list_all (deleteOk P) deleted
                then (None, deleted,
                      saveState P (guild_id guild)
                        (svc\<lparr>groupChannelsIdByGuildId :=
                               (groupChannelsIdByGuildId svc)(guild_id guild \<mapsto> [])\<rparr>),
                      guild')
                else (Some PlatformFailure, deleted, svc, guild'))"

text \<open>
  \<open>broadcastMessage\<close> returns the sends it issued, each the identifier of the channel and
  what was sent to it, with the error it threw or its promise was rejected with. Every
  send is issued before any is awaited.
\<close>

datatype Content = Text string | MessageEmbed string

datatype Payload = Plain string | Embeds "string list"

definition payload_of :: "Content \<Rightarrow> Payload" where
  "payload_of content = (case content of Text s \<Rightarrow> Plain s | MessageEmbed e \<Rightarrow> Embeds [e])"

definition broadcastMessage ::
  "EnvService \<Rightarrow> Platform \<Rightarrow> MassMultiplayerEventService \<Rightarrow> Guild \<Rightarrow> Content
     \<Rightarrow> string list option \<Rightarrow> error option \<times> (string \<times> Payload) list" where
  "broadcastMessage env P svc guild content excludeGroupIds =
     (case groupChannelsIdByGuildId svc (guild_id guild) of
        None \<Rightarrow> (Some TypeError, [])
      | Some ids \<Rightarrow>
          let groupsId = (case excludeGroupIds of
                            None \<Rightarrow> ids
                          | Some excl \<Rightarrow> filter (\<lambda>i. i \<notin> set excl) ids);
              channels = foldl (\<lambda>memo groupId.
                                  case getChannel guild groupId of
                                    None \<Rightarrow> memo
                                  | Some maybeChannel \<Rightarrow>
                                      if channelType maybeChannel = GUILD_TEXT
                                      then memo @ [maybeChannel] else memo)
                           [] groupsId
          in case getAdminChannel env guild of
               Inl e \<Rightarrow> (Some e, [])
             | Inr adminChannel \<Rightarrow>
                 let channels' = (case adminChannel of
                                    None \<Rightarrow> channels
                                  | Some a \<Rightarrow> channels @ [a]);
                     sends = map (\<lambda>channel. (channelId channel, payload_of content)) channels'
                 in (if list_all (\<lambda>channel. sendOk P (channelId channel)) channels'
                     then None else Some PlatformFailure,
                     sends))"

section \<open>Vocabulary of the properties\<close>

subsection \<open>Sequences of operations on a session\<close>






subsection \<open>The four mutating calls of the facade\<close>

text \<open>
  The four calls under one name each, with the accessor that reads the counter the call
  changes and the value the call gives that counter.
\<close>

datatype mutation = Deal | Place | Gain | Spend

fun Service_mutate ::
  "mutation \<Rightarrow> bool \<Rightarrow> string \<Rightarrow> number \<Rightarrow> BlobGameService
     \<Rightarrow> error option \<times> BlobGameService" where
  "Service_mutate Deal = Service_dealDamageToBlob"
| "Service_mutate Place = Service_placeCluesOnAct1"
| "Service_mutate Gain = Service_gainCounterMeasures"
| "Service_mutate Spend = Service_spendCounterMeasures"

fun BlobGame_mutate :: "mutation \<Rightarrow> number \<Rightarrow> BlobGame \<Rightarrow> BlobGame" where
  "BlobGame_mutate Deal = dealDamageToBlob"
| "BlobGame_mutate Place = placeCluesOnAct1"
| "BlobGame_mutate Gain = gainCounterMeasures"
| "BlobGame_mutate Spend = spendCounterMeasures"

fun Service_read :: "mutation \<Rightarrow> string \<Rightarrow> BlobGameService \<Rightarrow> number option" where
  "Service_read Deal = Service_getNumberOfDamageDealtToBlob"
| "Service_read Place = Service_getNumberOfCluesOnAct1"
| "Service_read Gain = Service_getNumberOfCounterMeasures"
| "Service_read Spend = Service_getNumberOfCounterMeasures"

fun counter_after :: "mutation \<Rightarrow> number \<Rightarrow> number \<Rightarrow> number" where
  "counter_after Spend n v = js_sub v n"
| "counter_after _ n v = js_add v n"

subsection \<open>Stored sessions\<close>

definition runningGames :: "string \<Rightarrow> BlobGameService \<Rightarrow> BlobGame list" where
  "runningGames guildId svc =
     filter (\<lambda>game. dateEnded game = None) (repository_load svc guildId)"

abbreviation date_desc :: "BlobGame \<Rightarrow> BlobGame \<Rightarrow> bool" where
  "date_desc a b \<equiv> dateCreated b \<le> dateCreated a"

subsection \<open>Channels and the platform\<close>

text \<open>
  An identifier is live text when it resolves, in the guild's cache, to a channel of type
  \<open>GUILD_TEXT\<close>. \<open>excluded\<close> is the set of identifiers an optional exclusion list
  names. \<open>created_ids\<close> lists, group after group, the identifiers the platform gives to the
  text and the voice channel of each group number; \<open>platform_ok\<close> says that the platform
  accepts the two creations and the two \<open>setParent\<close> calls of a group number.
  \<open>appended l new\<close> is the guild's list after \<open>new\<close> was pushed on \<open>l\<close>.
  \<open>group_channel\<close> is the channel of a group as the loop leaves it in the cache.
\<close>

definition is_live_text :: "Guild \<Rightarrow> string \<Rightarrow> bool" where
  "is_live_text guild i =
     (case getChannel guild i of None \<Rightarrow> False | Some c \<Rightarrow> channelType c = GUILD_TEXT)"

definition excluded :: "string list option \<Rightarrow> string set" where
  "excluded excludeGroupIds = (case excludeGroupIds of None \<Rightarrow> {} | Some excl \<Rightarrow> set excl)"

definition created_ids :: "Platform \<Rightarrow> int list \<Rightarrow> string list" where
  "created_ids P ks =
     concat (map (\<lambda>k. [the (createResult P (''groupe-'' @ string_of_int k)),
                        the (createResult P (''voice-groupe-'' @ string_of_int k))]) ks)"

definition platform_ok :: "Platform \<Rightarrow> int \<Rightarrow> bool" where
  "platform_ok P k =
     (case createResult P (''groupe-'' @ string_of_int k) of
        None \<Rightarrow> False
      | Some t \<Rightarrow> setParentOk P t \<and>
          (case createResult P (''voice-groupe-'' @ string_of_int k) of
             None \<Rightarrow> False
           | Some v \<Rightarrow> setParentOk P v))"

definition appended :: "string list option \<Rightarrow> string list \<Rightarrow> string list option" where
  "appended l new = (if new = [] then l else Some ((case l of None \<Rightarrow> [] | Some ids \<Rightarrow> ids) @ new))"

definition group_channel :: "string \<Rightarrow> string \<Rightarrow> ChannelType \<Rightarrow> string \<Rightarrow> Channel" where
  "group_channel i nm ty categoryId =
     \<lparr> channelId = i, channelName = nm, channelType = ty, parentId = Some categoryId \<rparr>"

text \<open>
  \<open>channels_as_created\<close> says that the two identifiers the platform gave for a group
  number resolve to the text and the voice channel of that group under the category.
\<close>

definition channels_as_created ::
  "Platform \<Rightarrow> string \<Rightarrow> Guild \<Rightarrow> int \<Rightarrow> bool" where
  "channels_as_created P categoryId guild' k =
     (getChannel guild' (the (createResult P (''groupe-'' @ string_of_int k)))
        = Some (group_channel (the (createResult P (''groupe-'' @ string_of_int k)))
                  (''groupe-'' @ string_of_int k) GUILD_TEXT categoryId)
      \<and> getChannel guild' (the (createResult P (''voice-groupe-'' @ string_of_int k)))
        = Some (group_channel (the (createResult P (''voice-groupe-'' @ string_of_int k)))
                  (''voice-groupe-'' @ string_of_int k) GUILD_VOICE categoryId))"

section \<open>Example states\<close>

definition one_player_game :: BlobGame where
  "one_player_game = BlobGame_new 1 0 (Num 1)"

definition empty_service :: BlobGameService where
  "empty_service = \<lparr> currentGameByGuildId = (\<lambda>g. None), persistedGames = (\<lambda>g. []) \<rparr>"

definition running_service :: BlobGameService where
  "running_service =
     \<lparr> currentGameByGuildId = (\<lambda>g. if g = ''guild'' then Some one_player_game else None),
       persistedGames = (\<lambda>g. if g = ''guild'' then [one_player_game] else []) \<rparr>"

text \<open>
  Game A was ended; games B and C are running, and B was created last. Game D is another
  running game, created at the same time as B.
\<close>

definition game_A :: BlobGame where
  "game_A = endGame 150 (BlobGame_new 1 100 (Num 2))"

definition game_B :: BlobGame where
  "game_B = BlobGame_new 2 200 (Num 4)"

definition game_C :: BlobGame where
  "game_C = BlobGame_new 3 50 (Num 3)"

definition game_D :: BlobGame where
  "game_D = BlobGame_new 7 200 (Num 1)"

definition history_service :: BlobGameService where
  "history_service =
     \<lparr> currentGameByGuildId = (\<lambda>g. None),
       persistedGames = (\<lambda>g. if g = ''guild'' then [game_A, game_C, game_B] else []) \<rparr>"

definition other_history_service :: BlobGameService where
  "other_history_service =
     \<lparr> currentGameByGuildId = (\<lambda>g. None),
       persistedGames = (\<lambda>g. if g = ''guild'' then [game_D] else []) \<rparr>"

text \<open>
  A guild with the event category, the admin channel and two groups, each a text and a
  voice channel. The second platform rejects the deletion of one channel.
\<close>

definition admin_channel :: Channel where
  "admin_channel = \<lparr> channelId = ''a0'', channelName = ''admin'', channelType = GUILD_TEXT,
                     parentId = Some ''c0'' \<rparr>"

definition event_guild :: Guild where
  "event_guild =
     \<lparr> guild_id = ''guild'',
       cache =
         [\<lparr> channelId = ''c0'', channelName = ''event'', channelType = GUILD_CATEGORY,
            parentId = None \<rparr>,
          \<lparr> channelId = ''a0'', channelName = ''admin'', channelType = GUILD_TEXT,
            parentId = Some ''c0'' \<rparr>,
          \<lparr> channelId = ''t1'', channelName = ''groupe-1'', channelType = GUILD_TEXT,
            parentId = Some ''c0'' \<rparr>,
          \<lparr> channelId = ''v1'', channelName = ''voice-groupe-1'', channelType = GUILD_VOICE,
            parentId = Some ''c0'' \<rparr>,
          \<lparr> channelId = ''t2'', channelName = ''groupe-2'', channelType = GUILD_TEXT,
            parentId = Some ''c0'' \<rparr>,
          \<lparr> channelId = ''v2'', channelName = ''voice-groupe-2'', channelType = GUILD_VOICE,
            parentId = Some ''c0'' \<rparr>] \<rparr>"

definition event_env :: EnvService where
  "event_env = \<lparr> massMultiplayerEventCategoryName = Some ''event'',
                 massMultiplayerEventAdminChannelName = Some ''admin'' \<rparr>"

definition half_env :: EnvService where
  "half_env = \<lparr> massMultiplayerEventCategoryName = Some ''event'',
                massMultiplayerEventAdminChannelName = None \<rparr>"

definition unset_env :: EnvService where
  "unset_env = \<lparr> massMultiplayerEventCategoryName = None,
                 massMultiplayerEventAdminChannelName = None \<rparr>"

definition event_service :: MassMultiplayerEventService where
  "event_service =
     \<lparr> groupChannelsIdByGuildId =
         (\<lambda>g. if g = ''guild'' then Some [''t1'', ''v1'', ''t2'', ''v2''] else None),
       stateFiles =
         (\<lambda>g. if g = ''guild'' then Some [''t1'', ''v1'', ''t2'', ''v2''] else None) \<rparr>"

definition ok_platform :: Platform where
  "ok_platform =
     \<lparr> createResult = (\<lambda>nm. Some (''id-'' @ nm)), setParentOk = (\<lambda>i. True),
       deleteOk = (\<lambda>i. True), sendOk = (\<lambda>i. True), saveResourceOk = True \<rparr>"

definition flaky_platform :: Platform where
  "flaky_platform =
     \<lparr> createResult = (\<lambda>nm. Some (''id-'' @ nm)), setParentOk = (\<lambda>i. True),
       deleteOk = (\<lambda>i. i \<noteq> ''id-groupe-2''), sendOk = (\<lambda>i. True), saveResourceOk = True \<rparr>"

section \<open>Properties of the arithmetic\<close>

lemma expo_small: "m < 2 ^ 53 \<Longrightarrow> expo m = 0"
  by (simp add: expo.simps)

lemma expo_large: "2 ^ 53 \<le> m \<Longrightarrow> expo m = Suc (expo (m div 2))"
  by (subst expo.simps) simp




lemma expo_scaled: "2 ^ 52 \<le> c \<Longrightarrow> c < 2 ^ 53 \<Longrightarrow> expo (c * 2 ^ e) = e"
proof (induction e)
  case 0
  then show ?case by (simp add: expo_small)
next
  case (Suc e)
  from Suc.prems have "2 ^ 53 \<le> c * 2 ^ Suc e"
  proof -
    have "(2::nat) ^ 53 = 2 ^ 52 * 2" by simp
    also have "\<dots> \<le> c * 2" using Suc.prems(1) by simp
    also have "\<dots> \<le> c * 2 ^ Suc e" by simp
    finally show ?thesis .
  qed
  then have "expo (c * 2 ^ Suc e) = Suc (expo (c * 2 ^ Suc e div 2))"
    by (rule expo_large)
  also have "c * 2 ^ Suc e div 2 = c * 2 ^ e" by simp
  finally show ?case using Suc by simp
qed

lemma round_nat_multiple: "2 ^ expo m dvd m \<Longrightarrow> round_nat m = m"
  by (auto simp add: round_nat_def Let_def dvd_eq_mod_eq_0)

lemma round_nat_small: "m < 2 ^ 53 \<Longrightarrow> round_nat m = m"
  by (rule round_nat_multiple) (simp add: expo_small)




lemma scaled_fixed:
  assumes "2 ^ 52 \<le> c" and "c \<le> 2 ^ 53"
  shows "round_nat (c * 2 ^ e) = c * 2 ^ e"
proof (cases "c < 2 ^ 53")
  case True
  with assms(1) have "expo (c * 2 ^ e) = e" by (rule expo_scaled)
  then show ?thesis by (intro round_nat_multiple) simp
next
  case False
  with assms(2) have c: "c = 2 ^ 53" by simp
  have "c * 2 ^ e = 2 ^ 52 * 2 ^ Suc e" by (simp add: c)
  moreover have "expo (2 ^ 52 * 2 ^ Suc e) = Suc e" by (rule expo_scaled) simp_all
  ultimately have "expo (c * 2 ^ e) = Suc e" by simp
  moreover have "2 ^ Suc e dvd c * 2 ^ e" by (simp add: c)
  ultimately show ?thesis by (intro round_nat_multiple) simp
qed



lemma round_nat_2_53: "m \<le> 2 ^ 53 \<Longrightarrow> round_nat m = m"
proof (cases "m < 2 ^ 53")
  case True
  then show ?thesis by (rule round_nat_small)
next
  case False
  assume "m \<le> 2 ^ 53"
  with False have "m = 2 ^ 52 * 2 ^ 0 * 2" by simp
  then have "m = 2 ^ 53 * 2 ^ 0" by simp
  moreover have "round_nat (2 ^ 53 * 2 ^ 0) = 2 ^ 53 * 2 ^ 0" by (rule scaled_fixed) simp_all
  ultimately show ?thesis by simp
qed

lemma fround_exact: "\<bar>n\<bar> \<le> 2 ^ 53 \<Longrightarrow> fround n = Num n"
proof -
  assume a: "\<bar>n\<bar> \<le> 2 ^ 53"
  then have "nat \<bar>n\<bar> \<le> 2 ^ 53" by (simp add: nat_le_iff)
  then have r: "round_nat (nat \<bar>n\<bar>) = nat \<bar>n\<bar>" by (rule round_nat_2_53)
  have "(2::int) ^ 53 < 2 ^ 1024" by (rule power_strict_increasing) simp_all
  with a have "\<not> (2::int) ^ 1024 \<le> \<bar>n\<bar>" by linarith
  then show ?thesis by (simp add: fround_def r Let_def)
qed

lemma expo_ex1: "expo 135107988821114865 = 4"
  by (simp add: expo.simps)


lemma round_ex1: "round_nat 135107988821114865 = 135107988821114864"
  by (simp add: round_nat_def expo_ex1)


lemma fround_below:
  assumes "round_nat (nat \<bar>n\<bar>) = r" and "r < 2 ^ 64"
  shows "fround n = Num (if 0 \<le> n then int r else - int r)"
proof -
  have "(2::nat) ^ 64 < 2 ^ 1024" by (rule power_strict_increasing) simp_all
  with assms(2) have "r < 2 ^ 1024" by simp
  then have "int r < 2 ^ 1024" by (metis of_nat_less_iff of_nat_numeral of_nat_power)
  then show ?thesis by (simp add: fround_def assms(1))
qed

lemma fround_ex1: "fround 135107988821114865 = Num 135107988821114864"
  using fround_below[of 135107988821114865 135107988821114864] round_ex1 by simp





lemma is_double_Num_iff:
  "is_double (Num a) \<longleftrightarrow> fround a = Num a"
  by (simp add: is_double_def)



lemma ceil_half: "\<lceil>real_of_int n / 2\<rceil> = (n + 1) div 2"
proof -
  have "\<lceil>real_of_int n / real_of_int 2\<rceil> = - (- n div 2)"
    by (rule ceiling_divide_eq_div)
  also have "\<dots> = (n + 1) div 2"
    by linarith
  finally show ?thesis
    by simp
qed

section \<open>Properties of the session object\<close>

lemma BlobGame_new_eval:
  "BlobGame_new i d (Num n) =
     \<lparr> id_bg = i, dateCreated = d, numberOfPlayers = Num n,
       numberOfDamageDealtToBlob = Num 0, numberOfCluesOnAct1 = Num 0,
       numberOfCounterMeasures = Num ((n + 1) div 2),
       story = None, dateEnded = None \<rparr>"
  by (simp only: BlobGame_new_def js_ceil_half.simps ceil_half)

lemma total_health_Num:
  "numberOfPlayers g = Num p \<Longrightarrow> getBlobTotalHealth g = fround (p * 15)"
  by (simp add: getBlobTotalHealth_def PER_INVESTIGATOR_TOTAL_HEALTH_def js_mul_def)

lemma clue_threshold_Num:
  "numberOfPlayers g = Num p \<Longrightarrow> getAct1ClueThreshold g = fround (p * 15)"
  by (simp add: getAct1ClueThreshold_def PER_INVESTIGATOR_ACT1_CLUE_THRESHOLD_def js_mul_def)

lemma set_POSSIBLE_STORIES:
  "set POSSIBLE_STORIES
     = {''RESCUE_THE_CHEMIST'', ''RECOVER_THE_SAMPLE'', ''DRIVE_OFF_THE_MIGO'',
        ''DEFUSE_THE_EXPLOSIVES''}"
  unfolding POSSIBLE_STORIES_def by (simp only: list.set)

lemma story_at_range:
  assumes "0 \<le> rnd" and "rnd \<le> 3"
  shows "\<exists>st. story_at rnd = Some st \<and> st \<in> set POSSIBLE_STORIES"
proof -
  have len: "length POSSIBLE_STORIES = 4"
    by (simp add: POSSIBLE_STORIES_def)
  with assms have "story_at rnd = Some (POSSIBLE_STORIES ! nat rnd)"
    by (simp add: story_at_def)
  moreover from assms len have "POSSIBLE_STORIES ! nat rnd \<in> set POSSIBLE_STORIES"
    by (intro nth_mem) simp
  ultimately show ?thesis
    by blast
qed

lemma story_at_2: "story_at 2 = Some ''DRIVE_OFF_THE_MIGO''"
  by (simp add: story_at_def POSSIBLE_STORIES_def)

lemma in_stories: "''DRIVE_OFF_THE_MIGO'' \<in> set POSSIBLE_STORIES"
  by (simp add: POSSIBLE_STORIES_def)

lemma notin_stories: "''EAT_THE_BLOB'' \<notin> set POSSIBLE_STORIES"
  by (simp add: POSSIBLE_STORIES_def)

lemma startNewGame_current:
  assumes "story_at rnd = Some st" and "st \<in> set POSSIBLE_STORIES"
  shows "startNewGame writeOk nextId now rnd guildId players svc =
           repository_save writeOk guildId ((BlobGame_new nextId now players)\<lparr>story := Some st\<rparr>)
             (svc\<lparr>currentGameByGuildId :=
                    (currentGameByGuildId svc)
                      (guildId \<mapsto> (BlobGame_new nextId now players)\<lparr>story := Some st\<rparr>)\<rparr>)"
  using assms by (simp add: startNewGame_def Let_def chooseStory_def)

lemma repository_save_current:
  "currentGameByGuildId (snd (repository_save writeOk guildId g svc)) = currentGameByGuildId svc"
  by (simp add: repository_save_def)

lemma repository_save_fst:
  "fst (repository_save writeOk guildId g svc)
     = (if writeOk then None else Some PersistenceFailure)"
  by (simp add: repository_save_def)

text \<open>
  Claim C1, as the code has it. For every number of players above zero, an integer that
  a double holds, and every index from 0 to 3 that the random service returns for the
  four stories, \<open>startNewGame\<close> leaves a current game for the guild whose
  counter-measures are the number of players halved and rounded up, whose damage dealt
  and clues placed are zero, and whose story is one of the four possible stories. Its
  total health and its clue threshold are fifteen times the number of players as a
  double: they are that product whenever it is at most \<open>2 ^ 53\<close>, and otherwise the
  nearest double, or infinity beyond the largest one. The call itself fails only when the
  save does.
\<close>

theorem startNewGame_fresh_session:
  assumes "0 < players" and "0 \<le> rnd" and "rnd \<le> 3" and "is_double (Num players)"
  shows "\<exists>game st.
           currentGameByGuildId
             (snd (startNewGame writeOk nextId now rnd guildId (Num players) svc)) guildId
             = Some game
         \<and> getBlobTotalHealth game = fround (players * 15)
         \<and> getAct1ClueThreshold game = fround (players * 15)
         \<and> (players * 15 \<le> 2 ^ 53 \<longrightarrow>
              getBlobTotalHealth game = Num (players * 15)
              \<and> getAct1ClueThreshold game = Num (players * 15))
         \<and> numberOfCounterMeasures game = Num \<lceil>real_of_int players / 2\<rceil>
         \<and> numberOfCounterMeasures game = Num ((players + 1) div 2)
         \<and> numberOfDamageDealtToBlob game = Num 0
         \<and> numberOfCluesOnAct1 game = Num 0
         \<and> story game = Some st
         \<and> st \<in> {''RESCUE_THE_CHEMIST'', ''RECOVER_THE_SAMPLE'', ''DRIVE_OFF_THE_MIGO'',
                  ''DEFUSE_THE_EXPLOSIVES''}
         \<and> fst (startNewGame writeOk nextId now rnd guildId (Num players) svc)
             = (if writeOk then None else Some PersistenceFailure)"
proof -
  from story_at_range[OF assms(2,3)] obtain st
    where st: "story_at rnd = Some st" "st \<in> set POSSIBLE_STORIES"
    by blast
  let ?g = "(BlobGame_new nextId now (Num players))\<lparr>story := Some st\<rparr>"
  have cur: "currentGameByGuildId
               (snd (startNewGame writeOk nextId now rnd guildId (Num players) svc)) guildId
               = Some ?g"
    by (simp add: startNewGame_current[OF st] repository_save_current)
  have pl: "numberOfPlayers ?g = Num players"
    by (simp add: BlobGame_new_def)
  have h: "getBlobTotalHealth ?g = fround (players * 15)"
    by (rule total_health_Num[OF pl])
  have t: "getAct1ClueThreshold ?g = fround (players * 15)"
    by (rule clue_threshold_Num[OF pl])
  have ex: "players * 15 \<le> 2 ^ 53 \<longrightarrow>
              getBlobTotalHealth ?g = Num (players * 15)
              \<and> getAct1ClueThreshold ?g = Num (players * 15)"
  proof
    assume "players * 15 \<le> 2 ^ 53"
    with assms(1) have "\<bar>players * 15\<bar> \<le> 2 ^ 53"
      by simp
    then have "fround (players * 15) = Num (players * 15)"
      by (rule fround_exact)
    then show "getBlobTotalHealth ?g = Num (players * 15)
              \<and> getAct1ClueThreshold ?g = Num (players * 15)"
      by (simp only: h t simp_thms)
  qed
  have c1: "numberOfCounterMeasures ?g = Num \<lceil>real_of_int players / 2\<rceil>"
    by (simp add: BlobGame_new_def)
  have c2: "numberOfCounterMeasures ?g = Num ((players + 1) div 2)"
    by (simp add: BlobGame_new_eval)
  have z: "numberOfDamageDealtToBlob ?g = Num 0" "numberOfCluesOnAct1 ?g = Num 0"
    "story ?g = Some st"
    by (simp_all add: BlobGame_new_def)
  have m: "st \<in> {''RESCUE_THE_CHEMIST'', ''RECOVER_THE_SAMPLE'', ''DRIVE_OFF_THE_MIGO'',
                  ''DEFUSE_THE_EXPLOSIVES''}"
    using st(2) by (simp only: set_POSSIBLE_STORIES)
  have r: "fst (startNewGame writeOk nextId now rnd guildId (Num players) svc)
             = (if writeOk then None else Some PersistenceFailure)"
    by (simp only: startNewGame_current[OF st] repository_save_fst)
  show ?thesis
    by (intro exI[of _ ?g] exI[of _ st] conjI cur h t ex c1 c2 z m r)
qed

text \<open>The theorem at three players, with the third story drawn and a save that succeeds.\<close>

theorem startNewGame_fresh_session_witness:
  "\<exists>game st.
     currentGameByGuildId
       (snd (startNewGame True 1 1000 2 ''guild'' (Num 3) empty_service)) ''guild''
       = Some game
     \<and> getBlobTotalHealth game = Num 45
     \<and> getAct1ClueThreshold game = Num 45
     \<and> numberOfCounterMeasures game = Num 2
     \<and> numberOfDamageDealtToBlob game = Num 0
     \<and> numberOfCluesOnAct1 game = Num 0
     \<and> story game = Some st
     \<and> st \<in> {''RESCUE_THE_CHEMIST'', ''RECOVER_THE_SAMPLE'', ''DRIVE_OFF_THE_MIGO'',
              ''DEFUSE_THE_EXPLOSIVES''}"
proof -
  have "(0::int) < 3" and "(0::int) \<le> 2" and "(2::int) \<le> 3" and "is_double (Num 3)"
    by (simp_all add: is_double_def fround_exact)
  from startNewGame_fresh_session [OF this, of True 1 1000 "''guild''" empty_service]
  obtain game where "\<exists>st.
           currentGameByGuildId
             (snd (startNewGame True 1 1000 2 ''guild'' (Num 3) empty_service)) ''guild''
             = Some game
         \<and> getBlobTotalHealth game = fround (3 * 15)
         \<and> getAct1ClueThreshold game = fround (3 * 15)
         \<and> ((3::int) * 15 \<le> 2 ^ 53 \<longrightarrow>
              getBlobTotalHealth game = Num (3 * 15)
              \<and> getAct1ClueThreshold game = Num (3 * 15))
         \<and> numberOfCounterMeasures game = Num \<lceil>real_of_int 3 / 2\<rceil>
         \<and> numberOfCounterMeasures game = Num ((3 + 1) div 2)
         \<and> numberOfDamageDealtToBlob game = Num 0
         \<and> numberOfCluesOnAct1 game = Num 0
         \<and> story game = Some st
         \<and> st \<in> {''RESCUE_THE_CHEMIST'', ''RECOVER_THE_SAMPLE'', ''DRIVE_OFF_THE_MIGO'',
                  ''DEFUSE_THE_EXPLOSIVES''}
         \<and> fst (startNewGame True 1 1000 2 ''guild'' (Num 3) empty_service)
             = (if True then None else Some PersistenceFailure)" ..
  then obtain st where all:
          "currentGameByGuildId
             (snd (startNewGame True 1 1000 2 ''guild'' (Num 3) empty_service)) ''guild''
             = Some game
         \<and> getBlobTotalHealth game = fround (3 * 15)
         \<and> getAct1ClueThreshold game = fround (3 * 15)
         \<and> ((3::int) * 15 \<le> 2 ^ 53 \<longrightarrow>
              getBlobTotalHealth game = Num (3 * 15)
              \<and> getAct1ClueThreshold game = Num (3 * 15))
         \<and> numberOfCounterMeasures game = Num \<lceil>real_of_int 3 / 2\<rceil>
         \<and> numberOfCounterMeasures game = Num ((3 + 1) div 2)
         \<and> numberOfDamageDealtToBlob game = Num 0
         \<and> numberOfCluesOnAct1 game = Num 0
         \<and> story game = Some st
         \<and> st \<in> {''RESCUE_THE_CHEMIST'', ''RECOVER_THE_SAMPLE'', ''DRIVE_OFF_THE_MIGO'',
                  ''DEFUSE_THE_EXPLOSIVES''}
         \<and> fst (startNewGame True 1 1000 2 ''guild'' (Num 3) empty_service)
             = (if True then None else Some PersistenceFailure)" ..
  note c = all[THEN conjunct1]
  note r1 = all[THEN conjunct2]
  note r3 = r1[THEN conjunct2, THEN conjunct2]
  have small: "(3::int) * 15 \<le> 2 ^ 53"
    by simp
  note ht = r3[THEN conjunct1, rule_format, OF small]
  note r4 = r3[THEN conjunct2]
  note r5 = r4[THEN conjunct2]
  note r6 = r5[THEN conjunct2]
  note r7 = r6[THEN conjunct2]
  note r8 = r7[THEN conjunct2]
  have h: "getBlobTotalHealth game = Num 45"
    using ht[THEN conjunct1] by simp
  have t: "getAct1ClueThreshold game = Num 45"
    using ht[THEN conjunct2] by simp
  have cm: "numberOfCounterMeasures game = Num 2"
    using r5[THEN conjunct1] by simp
  show ?thesis
    by (intro exI[of _ game] exI[of _ st] conjI c h t cm r6[THEN conjunct1]
        r7[THEN conjunct1] r8[THEN conjunct1] r8[THEN conjunct2, THEN conjunct1])
qed

text \<open>
  Claim C1 as stated fails: for \<open>2 ^ 53 - 1\<close> players the total health and the clue
  threshold of the new game are 135107988821114864, one less than fifteen times the
  number of players.
\<close>

theorem startNewGame_health_rounds_counterexample:
  "map_option getBlobTotalHealth
     (currentGameByGuildId
        (snd (startNewGame True 1 1000 2 ''guild'' (Num 9007199254740991) empty_service))
        ''guild'')
     = Some (Num 135107988821114864)
 \<and> map_option getAct1ClueThreshold
     (currentGameByGuildId
        (snd (startNewGame True 1 1000 2 ''guild'' (Num 9007199254740991) empty_service))
        ''guild'')
     = Some (Num 135107988821114864)
 \<and> 9007199254740991 * 15 = (135107988821114865 :: int)"
proof -
  let ?g = "(BlobGame_new 1 1000 (Num 9007199254740991))\<lparr>story := Some ''DRIVE_OFF_THE_MIGO''\<rparr>"
  have cur: "currentGameByGuildId
        (snd (startNewGame True 1 1000 2 ''guild'' (Num 9007199254740991) empty_service))
        ''guild'' = Some ?g"
    by (simp add: startNewGame_current[OF story_at_2 in_stories] repository_save_current)
  have pl: "numberOfPlayers ?g = Num 9007199254740991"
    by (simp add: BlobGame_new_def)
  have f: "fround (9007199254740991 * 15) = Num 135107988821114864"
    using fround_ex1 by simp
  show ?thesis
    by (simp add: cur total_health_Num[OF pl] clue_threshold_Num[OF pl] fround_ex1)
qed




lemma one_player_fields:
  "numberOfPlayers one_player_game = Num 1"
  "numberOfDamageDealtToBlob one_player_game = Num 0"
  "numberOfCluesOnAct1 one_player_game = Num 0"
  "numberOfCounterMeasures one_player_game = Num 1"
  "story one_player_game = None"
  by (simp_all add: one_player_game_def BlobGame_new_eval)



text \<open>
  Claim C5. \<open>chooseStory\<close> on a string outside the four possible stories throws the
  invalid-story error and leaves the session, its story included, as it was; on one of
  the four it returns and has set the story to it, changing nothing else.
\<close>

theorem chooseStory_closed_set:
  "(st \<notin> {''RESCUE_THE_CHEMIST'', ''RECOVER_THE_SAMPLE'', ''DRIVE_OFF_THE_MIGO'',
           ''DEFUSE_THE_EXPLOSIVES''}
      \<longrightarrow> fst (chooseStory st g) = Some (InvalidStory st) \<and> snd (chooseStory st g) = g)
 \<and> (st \<in> {''RESCUE_THE_CHEMIST'', ''RECOVER_THE_SAMPLE'', ''DRIVE_OFF_THE_MIGO'',
           ''DEFUSE_THE_EXPLOSIVES''}
      \<longrightarrow> fst (chooseStory st g) = None \<and> snd (chooseStory st g) = g\<lparr>story := Some st\<rparr>)"
  unfolding set_POSSIBLE_STORIES[symmetric] by (simp add: chooseStory_def)

theorem chooseStory_closed_set_witness:
  "fst (chooseStory ''EAT_THE_BLOB'' one_player_game) = Some (InvalidStory ''EAT_THE_BLOB'')
 \<and> story (snd (chooseStory ''EAT_THE_BLOB'' one_player_game)) = None
 \<and> fst (chooseStory ''DRIVE_OFF_THE_MIGO'' one_player_game) = None
 \<and> story (snd (chooseStory ''DRIVE_OFF_THE_MIGO'' one_player_game))
     = Some ''DRIVE_OFF_THE_MIGO''"
  using chooseStory_closed_set [of "''EAT_THE_BLOB''" one_player_game]
        chooseStory_closed_set [of "''DRIVE_OFF_THE_MIGO''" one_player_game]
        in_stories notin_stories
  unfolding set_POSSIBLE_STORIES[symmetric]
  by (simp add: one_player_fields)











section \<open>Properties of the orchestration facade\<close>

lemma mutate_and_save_no_game:
  "currentGameByGuildId svc guildId = None \<Longrightarrow>
     mutate_and_save f writeOk guildId svc = (Some Rejected, svc)"
  by (simp add: mutate_and_save_def)

lemma upsert_mem: "g \<in> set (upsert g xs)"
  by (induction xs) simp_all

lemma mutate_and_save_game:
  assumes "currentGameByGuildId svc guildId = Some game"
  shows "fst (mutate_and_save f writeOk guildId svc)
           = (if writeOk then None else Some PersistenceFailure)"
    and "currentGameByGuildId (snd (mutate_and_save f writeOk guildId svc)) guildId
           = Some (f game)"
    and "\<not> writeOk \<Longrightarrow>
           persistedGames (snd (mutate_and_save f writeOk guildId svc)) = persistedGames svc"
    and "writeOk \<Longrightarrow>
           f game \<in> set (persistedGames (snd (mutate_and_save f writeOk guildId svc)) guildId)"
  using assms by (simp_all add: mutate_and_save_def repository_save_def upsert_mem)

lemma Service_mutate_eq:
  "Service_mutate m writeOk guildId n = mutate_and_save (BlobGame_mutate m n) writeOk guildId"
  by (cases m) (simp_all add: Service_dealDamageToBlob_def Service_placeCluesOnAct1_def
      Service_gainCounterMeasures_def Service_spendCounterMeasures_def)

lemma Service_read_after:
  "currentGameByGuildId svc guildId = Some game \<Longrightarrow>
   currentGameByGuildId svc' guildId = Some (BlobGame_mutate m n game) \<Longrightarrow>
   Service_read m guildId svc' = map_option (counter_after m n) (Service_read m guildId svc)"
  by (cases m) (simp_all add: Service_getNumberOfDamageDealtToBlob_def
      Service_getNumberOfCluesOnAct1_def Service_getNumberOfCounterMeasures_def
      dealDamageToBlob_def placeCluesOnAct1_def gainCounterMeasures_def
      spendCounterMeasures_def)

text \<open>
  Claim C2, as the code has it. Each of the four mutating calls, for a guild without a
  current game, is rejected and changes neither the table of current games nor what is
  persisted. For a guild with a current game it changes the counter of the current game
  first, to the sum or the difference, as a double, of the counter and the amount, which
  the read accessor then shows, and returns what the save returns: when the write fails
  the call fails with the persisted games unchanged and the change still in the current
  game; when it succeeds the persisted games hold the current game.
\<close>

theorem mutation_applied_in_memory_before_save:
  "(currentGameByGuildId svc guildId = None \<longrightarrow>
      Service_mutate m writeOk guildId n svc = (Some Rejected, svc))
 \<and> (currentGameByGuildId svc guildId \<noteq> None \<longrightarrow>
      fst (Service_mutate m writeOk guildId n svc)
        = (if writeOk then None else Some PersistenceFailure)
    \<and> Service_read m guildId (snd (Service_mutate m writeOk guildId n svc))
        = map_option (counter_after m n) (Service_read m guildId svc)
    \<and> (\<not> writeOk \<longrightarrow>
         persistedGames (snd (Service_mutate m writeOk guildId n svc)) = persistedGames svc)
    \<and> (writeOk \<longrightarrow>
         currentGameByGuildId (snd (Service_mutate m writeOk guildId n svc)) guildId
           \<in> Some ` set (persistedGames (snd (Service_mutate m writeOk guildId n svc))
                          guildId)))"
proof (cases "currentGameByGuildId svc guildId")
  case None
  then show ?thesis
    by (simp add: Service_mutate_eq mutate_and_save_no_game)
next
  case (Some game)
  note ms = mutate_and_save_game[OF Some, where f = "BlobGame_mutate m n" and writeOk = writeOk]
  have "Service_read m guildId (snd (Service_mutate m writeOk guildId n svc))
        = map_option (counter_after m n) (Service_read m guildId svc)"
    unfolding Service_mutate_eq by (rule Service_read_after[OF Some ms(2)])
  moreover have "writeOk \<longrightarrow>
         currentGameByGuildId (snd (Service_mutate m writeOk guildId n svc)) guildId
           \<in> Some ` set (persistedGames (snd (Service_mutate m writeOk guildId n svc))
                          guildId)"
    unfolding Service_mutate_eq using ms(2,4) by (cases writeOk) auto
  ultimately show ?thesis
    using Some ms(1,3) by (simp add: Service_mutate_eq)
qed

lemma fround_small:
  "fround 0 = Num 0" "fround 3 = Num 3" "fround 4 = Num 4"
  by (rule fround_exact, simp)+

lemma running_service_read:
  "currentGameByGuildId running_service ''guild'' = Some one_player_game"
  "currentGameByGuildId empty_service ''guild'' = None"
  "persistedGames running_service ''guild'' = [one_player_game]"
  by (simp_all add: running_service_def empty_service_def)

theorem mutation_applied_in_memory_before_save_witness:
  "Service_mutate Spend True ''guild'' (Num 1) empty_service = (Some Rejected, empty_service)
 \<and> fst (Service_mutate Spend False ''guild'' (Num 1) running_service)
     = Some PersistenceFailure
 \<and> Service_read Spend ''guild''
      (snd (Service_mutate Spend False ''guild'' (Num 1) running_service)) = Some (Num 0)
 \<and> Service_read Deal ''guild''
      (snd (Service_mutate Deal True ''guild'' (Num 4) running_service)) = Some (Num 4)"
  using mutation_applied_in_memory_before_save
          [of empty_service "''guild''" Spend True "Num 1"]
        mutation_applied_in_memory_before_save
          [of running_service "''guild''" Spend False "Num 1"]
        mutation_applied_in_memory_before_save
          [of running_service "''guild''" Deal True "Num 4"]
  by (simp add: running_service_read Service_getNumberOfCounterMeasures_def
      Service_getNumberOfDamageDealtToBlob_def one_player_fields js_sub_def fround_small)

text \<open>
  Claim C2 as stated fails: with a current game persisted and no damage dealt, a call of
  \<open>dealDamageToBlob\<close> for 3 whose write fails is rejected, yet the current game then
  shows 3 damage while the persisted game still shows 0.
\<close>

theorem failed_save_keeps_memory_change_counterexample:
  "fst (Service_dealDamageToBlob False ''guild'' (Num 3) running_service)
     = Some PersistenceFailure
 \<and> Service_getNumberOfDamageDealtToBlob ''guild'' running_service = Some (Num 0)
 \<and> Service_getNumberOfDamageDealtToBlob ''guild''
      (snd (Service_dealDamageToBlob False ''guild'' (Num 3) running_service))
     = Some (Num 3)
 \<and> map numberOfDamageDealtToBlob
      (persistedGames (snd (Service_dealDamageToBlob False ''guild'' (Num 3) running_service))
         ''guild'') = [Num 0]"
  by (simp add: Service_dealDamageToBlob_def mutate_and_save_def running_service_read
      repository_save_def Service_getNumberOfDamageDealtToBlob_def dealDamageToBlob_def
      one_player_fields fround_small)

lemma set_insert_by: "set (insert_by cmp x ys) = insert x (set ys)"
  by (induction ys) auto

lemma set_array_sort: "set (array_sort cmp xs) = set xs"
  by (induction xs) (simp_all add: array_sort_def set_insert_by)

lemma array_sort_Nil_iff: "array_sort cmp xs = [] \<longleftrightarrow> xs = []"
  using set_array_sort[of cmp xs] by (metis set_empty)

lemma sorted_insert_by:
  "sorted_wrt date_desc ys \<Longrightarrow> sorted_wrt date_desc (insert_by sortByDateDesc x ys)"
  by (induction ys) (auto simp: set_insert_by sortByDateDesc_def split: if_splits)

lemma sorted_array_sort: "sorted_wrt date_desc (array_sort sortByDateDesc xs)"
  by (induction xs) (simp_all add: array_sort_def sorted_insert_by)

lemma hd_array_sort:
  assumes "xs \<noteq> []"
  shows "hd (array_sort sortByDateDesc xs) \<in> set xs"
    and "\<forall>g \<in> set xs. dateCreated g \<le> dateCreated (hd (array_sort sortByDateDesc xs))"
proof -
  from assms obtain y ys where ys: "array_sort sortByDateDesc xs = y # ys"
    by (cases "array_sort sortByDateDesc xs") (simp_all add: array_sort_Nil_iff)
  have sets: "set (y # ys) = set xs"
    using set_array_sort[of sortByDateDesc xs] by (simp only: ys)
  have hd_y: "hd (array_sort sortByDateDesc xs) = y"
    by (simp add: ys)
  have "y \<in> set (y # ys)"
    by simp
  then show "hd (array_sort sortByDateDesc xs) \<in> set xs"
    by (simp only: sets hd_y)
  from sorted_array_sort[of xs] have "\<forall>g \<in> set ys. dateCreated g \<le> dateCreated y"
    by (simp add: ys)
  then have "\<forall>g \<in> set (y # ys). dateCreated g \<le> dateCreated y"
    by simp
  then show "\<forall>g \<in> set xs. dateCreated g \<le> dateCreated (hd (array_sort sortByDateDesc xs))"
    by (simp only: sets hd_y)
qed

lemma continueLatestGame_none:
  "runningGames guildId svc = [] \<Longrightarrow> continueLatestGame guildId svc = (None, svc)"
  by (simp add: continueLatestGame_def runningGames_def Let_def)

lemma continueLatestGame_some:
  "runningGames guildId svc \<noteq> [] \<Longrightarrow>
   continueLatestGame guildId svc =
     (Some (dateCreated (hd (array_sort sortByDateDesc (runningGames guildId svc)))),
      svc\<lparr>currentGameByGuildId := (currentGameByGuildId svc)
              (guildId \<mapsto> hd (array_sort sortByDateDesc (runningGames guildId svc)))\<rparr>)"
  by (auto simp add: continueLatestGame_def runningGames_def Let_def)

text \<open>
  Claim C3, as the code has it. \<open>continueLatestGame\<close> looks at the stored games of the
  guild that have no end date. When there is none, which includes an empty store, it
  returns \<open>undefined\<close> and changes nothing. Otherwise it makes current for the guild a
  stored game without end date whose creation date no other stored game without end date
  exceeds, and returns the creation date of that game, not the game.
\<close>

theorem continueLatestGame_selects_latest_running:
  "(set (persistedGames svc guildId) \<inter> {g. dateEnded g = None} = {} \<longrightarrow>
      continueLatestGame guildId svc = (None, svc))
 \<and> (set (persistedGames svc guildId) \<inter> {g. dateEnded g = None} \<noteq> {} \<longrightarrow>
      (\<exists>cur. cur \<in> set (persistedGames svc guildId) \<and> dateEnded cur = None
         \<and> (\<forall>g \<in> set (persistedGames svc guildId).
               dateEnded g = None \<longrightarrow> dateCreated g \<le> dateCreated cur)
         \<and> continueLatestGame guildId svc =
             (Some (dateCreated cur),
              svc\<lparr>currentGameByGuildId := (currentGameByGuildId svc)(guildId \<mapsto> cur)\<rparr>)))"
proof -
  have set_running: "set (runningGames guildId svc)
      = set (persistedGames svc guildId) \<inter> {g. dateEnded g = None}"
    by (auto simp add: runningGames_def repository_load_def)
  show ?thesis
  proof (cases "runningGames guildId svc = []")
    case True
    with set_running have "set (persistedGames svc guildId) \<inter> {g. dateEnded g = None} = {}"
      by simp
    with True show ?thesis
      by (simp add: continueLatestGame_none)
  next
    case False
    let ?cur = "hd (array_sort sortByDateDesc (runningGames guildId svc))"
    from hd_array_sort[OF False] set_running
    have a: "?cur \<in> set (persistedGames svc guildId)" and b: "dateEnded ?cur = None"
      and c: "\<forall>g \<in> set (persistedGames svc guildId).
               dateEnded g = None \<longrightarrow> dateCreated g \<le> dateCreated ?cur"
      by auto
    from False set_running
    have ne: "set (persistedGames svc guildId) \<inter> {g. dateEnded g = None} \<noteq> {}"
      by (metis set_empty)
    from a b c continueLatestGame_some[OF False] have
      "\<exists>cur. cur \<in> set (persistedGames svc guildId) \<and> dateEnded cur = None
         \<and> (\<forall>g \<in> set (persistedGames svc guildId).
               dateEnded g = None \<longrightarrow> dateCreated g \<le> dateCreated cur)
         \<and> continueLatestGame guildId svc =
             (Some (dateCreated cur),
              svc\<lparr>currentGameByGuildId := (currentGameByGuildId svc)(guildId \<mapsto> cur)\<rparr>)"
      by (intro exI[of _ ?cur]) simp
    with ne show ?thesis
      by simp
  qed
qed

text \<open>
  With A ended and B started after it, B becomes current; a guild without stored games
  gets none.
\<close>

lemma game_fields:
  "dateEnded game_A = Some 150" "dateEnded game_B = None" "dateEnded game_C = None"
  "dateEnded game_D = None"
  "dateCreated game_A = 100" "dateCreated game_B = 200" "dateCreated game_C = 50"
  "dateCreated game_D = 200"
  "id_bg game_B = 2" "id_bg game_D = 7"
  by (simp_all add: game_A_def game_B_def game_C_def game_D_def endGame_def BlobGame_new_def)

lemma history_continue:
  "continueLatestGame ''guild'' history_service =
     (Some 200, history_service\<lparr>currentGameByGuildId :=
                  (currentGameByGuildId history_service)(''guild'' \<mapsto> game_B)\<rparr>)"
  "continueLatestGame ''other'' history_service = (None, history_service)"
  "continueLatestGame ''guild'' other_history_service =
     (Some 200, other_history_service\<lparr>currentGameByGuildId :=
                  (currentGameByGuildId other_history_service)(''guild'' \<mapsto> game_D)\<rparr>)"
  by (simp_all add: continueLatestGame_def repository_load_def history_service_def
      other_history_service_def Let_def game_fields array_sort_def sortByDateDesc_def)

theorem continueLatestGame_selects_latest_running_witness:
  "continueLatestGame ''guild'' history_service =
     (Some 200, history_service\<lparr>currentGameByGuildId :=
                  (currentGameByGuildId history_service)(''guild'' \<mapsto> game_B)\<rparr>)
 \<and> continueLatestGame ''other'' history_service = (None, history_service)"
  using continueLatestGame_selects_latest_running [of history_service "''guild''"]
        continueLatestGame_selects_latest_running [of history_service "''other''"]
  by (simp only: history_continue simp_thms)

text \<open>
  Claim C3 as stated fails: what is returned is a date and not the session. Two stores
  whose latest running games differ, B in one and D in the other, both created at 200,
  give the same returned value while the games made current differ.
\<close>

theorem continueLatestGame_returns_date_counterexample:
  "fst (continueLatestGame ''guild'' history_service) = Some 200
 \<and> fst (continueLatestGame ''guild'' other_history_service) = Some 200
 \<and> currentGameByGuildId (snd (continueLatestGame ''guild'' history_service)) ''guild''
     = Some game_B
 \<and> currentGameByGuildId (snd (continueLatestGame ''guild'' other_history_service)) ''guild''
     = Some game_D
 \<and> id_bg game_B = 2 \<and> id_bg game_D = 7"
  by (simp add: history_continue game_fields)

section \<open>Properties of the channel-group registry\<close>

subsection \<open>Cleaning without a list\<close>

lemma initial_list: "groupChannelsIdByGuildId initial_service gid = None"
  by (simp add: initial_service_def)

text \<open>
  Claim C9. For a guild that has no entry in the table of group channels,
  \<open>cleanGroupChannels\<close> throws: it deletes nothing and leaves the service and the guild
  as they were.
\<close>

theorem cleanGroupChannels_without_list_throws:
  assumes "groupChannelsIdByGuildId svc (guild_id guild) = None"
  shows "cleanGroupChannels P (svc, guild) = (Some TypeError, [], svc, guild)"
  using assms by (simp add: cleanGroupChannels_def)

theorem cleanGroupChannels_without_list_throws_witness:
  "groupChannelsIdByGuildId initial_service (guild_id event_guild) = None
 \<and> cleanGroupChannels ok_platform (initial_service, event_guild)
     = (Some TypeError, [], initial_service, event_guild)"
  using cleanGroupChannels_without_list_throws [of initial_service event_guild ok_platform]
  by (simp add: initial_list)

subsection \<open>The admin channel and the broadcast\<close>

lemma find_None_iff2: "(List.find P xs = None) = (\<forall>x \<in> set xs. \<not> P x)"
  by (auto simp add: find_None_iff)

lemma parent_in_cache: "parent guild ch = Some p \<Longrightarrow> p \<in> set (cache guild)"
  by (auto simp: parent_def find_Some_iff split: option.splits)

lemma getChannel_id: "getChannel guild i = Some c \<Longrightarrow> channelId c = i"
  by (auto simp: getChannel_def find_Some_iff)

lemma foldl_text_channels:
  "map channelId
     (foldl (\<lambda>memo groupId.
               case getChannel guild groupId of
                 None \<Rightarrow> memo
               | Some maybeChannel \<Rightarrow>
                   if channelType maybeChannel = GUILD_TEXT then memo @ [maybeChannel] else memo)
        acc xs)
   = map channelId acc @ filter (is_live_text guild) xs"
  by (induction xs arbitrary: acc)
     (auto simp: is_live_text_def getChannel_id split: option.splits)

lemma broadcast_targets:
  assumes "groupChannelsIdByGuildId svc (guild_id guild) = Some ids"
      and "getAdminChannel env guild = Inr adminChannel"
  shows "map fst (snd (broadcastMessage env P svc guild content excludeGroupIds))
           = filter (\<lambda>i. i \<notin> excluded excludeGroupIds \<and> is_live_text guild i) ids
             @ (case adminChannel of None \<Rightarrow> [] | Some a \<Rightarrow> [channelId a])"
  using assms
  by (cases excludeGroupIds; cases adminChannel)
     (simp_all add: broadcastMessage_def Let_def comp_def foldl_text_channels excluded_def
        filter_filter conj_commute)

lemma broadcast_payloads:
  "map snd (snd (broadcastMessage env P svc guild content excludeGroupIds))
     = replicate (length (snd (broadcastMessage env P svc guild content excludeGroupIds)))
         (payload_of content)"
  by (simp add: broadcastMessage_def Let_def comp_def map_replicate_const
      split: option.splits sum.splits)

lemma broadcast_no_admin:
  assumes "groupChannelsIdByGuildId svc (guild_id guild) = Some ids"
      and "getAdminChannel env guild = Inr None"
  shows "fst (broadcastMessage env P svc guild content excludeGroupIds)
           \<noteq> Some ConfigurationMissing"
  using assms by (simp add: broadcastMessage_def Let_def)

lemma event_list:
  "groupChannelsIdByGuildId event_service (guild_id event_guild)
     = Some [''t1'', ''v1'', ''t2'', ''v2'']"
  by (simp add: event_service_def event_guild_def)

lemma event_admin: "getAdminChannel event_env event_guild = Inr (Some admin_channel)"
  by (simp add: getAdminChannel_def event_env_def event_guild_def falsy_def parent_def
      admin_channel_def)

lemma event_filter:
  "filter (\<lambda>i. i \<notin> excluded (Some [''t2'']) \<and> is_live_text event_guild i)
     [''t1'', ''v1'', ''t2'', ''v2''] = [''t1'']"
  by (simp add: excluded_def is_live_text_def getChannel_def event_guild_def)

lemma admin_channel_id: "channelId admin_channel = ''a0''"
  by (simp add: admin_channel_def)

text \<open>
  Claim C10. \<open>getAdminChannel\<close> throws the configuration-missing error exactly when both
  the category name and the admin channel name are unset or empty, and throws nothing
  else. When exactly one of the two is unset or empty and one of them is absent, it
  returns \<open>undefined\<close>, and a broadcast for a guild that has a list then does not fail for
  the configuration and sends to the live text channels of the list that are not excluded
  and to no admin channel. The same holds when the value that counts as unset is the
  empty string, in a guild whose channels all have a name.
\<close>

theorem getAdminChannel_raises_only_when_both_unset:
  "(getAdminChannel env guild = Inl ConfigurationMissing
      \<longleftrightarrow> falsy (massMultiplayerEventCategoryName env)
          \<and> falsy (massMultiplayerEventAdminChannelName env))
 \<and> (\<forall>e. getAdminChannel env guild = Inl e \<longrightarrow> e = ConfigurationMissing)
 \<and> (falsy (massMultiplayerEventCategoryName env)
        \<noteq> falsy (massMultiplayerEventAdminChannelName env)
      \<and> (massMultiplayerEventCategoryName env = None
           \<or> massMultiplayerEventAdminChannelName env = None)
      \<longrightarrow> getAdminChannel env guild = Inr None
        \<and> (\<forall>ids. groupChannelsIdByGuildId svc (guild_id guild) = Some ids \<longrightarrow>
              fst (broadcastMessage env P svc guild content excludeGroupIds)
                \<noteq> Some ConfigurationMissing
            \<and> map fst (snd (broadcastMessage env P svc guild content excludeGroupIds))
                = filter (\<lambda>i. i \<notin> excluded excludeGroupIds \<and> is_live_text guild i) ids))
 \<and> (falsy (massMultiplayerEventCategoryName env)
        \<noteq> falsy (massMultiplayerEventAdminChannelName env)
      \<and> (\<forall>c \<in> set (cache guild). channelName c \<noteq> [])
      \<longrightarrow> getAdminChannel env guild = Inr None)"
proof (intro conjI)
  show "getAdminChannel env guild = Inl ConfigurationMissing
      \<longleftrightarrow> falsy (massMultiplayerEventCategoryName env)
          \<and> falsy (massMultiplayerEventAdminChannelName env)"
    by (simp add: getAdminChannel_def)
  show "\<forall>e. getAdminChannel env guild = Inl e \<longrightarrow> e = ConfigurationMissing"
    by (simp add: getAdminChannel_def)
  show "falsy (massMultiplayerEventCategoryName env)
        \<noteq> falsy (massMultiplayerEventAdminChannelName env)
      \<and> (massMultiplayerEventCategoryName env = None
           \<or> massMultiplayerEventAdminChannelName env = None)
      \<longrightarrow> getAdminChannel env guild = Inr None
        \<and> (\<forall>ids. groupChannelsIdByGuildId svc (guild_id guild) = Some ids \<longrightarrow>
              fst (broadcastMessage env P svc guild content excludeGroupIds)
                \<noteq> Some ConfigurationMissing
            \<and> map fst (snd (broadcastMessage env P svc guild content excludeGroupIds))
                = filter (\<lambda>i. i \<notin> excluded excludeGroupIds \<and> is_live_text guild i) ids)"
  proof (intro impI)
    assume h: "falsy (massMultiplayerEventCategoryName env)
        \<noteq> falsy (massMultiplayerEventAdminChannelName env)
      \<and> (massMultiplayerEventCategoryName env = None
           \<or> massMultiplayerEventAdminChannelName env = None)"
    then have adm: "getAdminChannel env guild = Inr None"
      by (auto simp add: getAdminChannel_def falsy_def find_None_iff2)
    have "\<forall>ids. groupChannelsIdByGuildId svc (guild_id guild) = Some ids \<longrightarrow>
              fst (broadcastMessage env P svc guild content excludeGroupIds)
                \<noteq> Some ConfigurationMissing
            \<and> map fst (snd (broadcastMessage env P svc guild content excludeGroupIds))
                = filter (\<lambda>i. i \<notin> excluded excludeGroupIds \<and> is_live_text guild i) ids"
      using broadcast_no_admin[OF _ adm] broadcast_targets[OF _ adm] by simp
    with adm show "getAdminChannel env guild = Inr None
        \<and> (\<forall>ids. groupChannelsIdByGuildId svc (guild_id guild) = Some ids \<longrightarrow>
              fst (broadcastMessage env P svc guild content excludeGroupIds)
                \<noteq> Some ConfigurationMissing
            \<and> map fst (snd (broadcastMessage env P svc guild content excludeGroupIds))
                = filter (\<lambda>i. i \<notin> excluded excludeGroupIds \<and> is_live_text guild i) ids)"
      by (rule conjI)
  qed
  show "falsy (massMultiplayerEventCategoryName env)
        \<noteq> falsy (massMultiplayerEventAdminChannelName env)
      \<and> (\<forall>c \<in> set (cache guild). channelName c \<noteq> [])
      \<longrightarrow> getAdminChannel env guild = Inr None"
    by (auto simp add: getAdminChannel_def falsy_def find_None_iff2 dest: parent_in_cache)
qed

text \<open>
  With neither name set the lookup throws; with only the category name set it returns
  \<open>undefined\<close> and the broadcast reaches the two group text channels alone.
\<close>

theorem getAdminChannel_raises_only_when_both_unset_witness:
  "getAdminChannel unset_env event_guild = Inl ConfigurationMissing
 \<and> getAdminChannel half_env event_guild = Inr None
 \<and> broadcastMessage half_env ok_platform event_service event_guild (Text ''go'') None
     = (None, [(''t1'', Plain ''go''), (''t2'', Plain ''go'')])"
  using getAdminChannel_raises_only_when_both_unset
          [of unset_env event_guild event_service ok_platform "Text ''go''" None]
        getAdminChannel_raises_only_when_both_unset
          [of half_env event_guild event_service ok_platform "Text ''go''" None]
  by (simp add: unset_env_def half_env_def falsy_def event_service_def event_guild_def
      ok_platform_def broadcastMessage_def getChannel_def getAdminChannel_def parent_def
      payload_of_def)

text \<open>
  Claim C8, as the code has it. For a guild that has a list, and when the lookup of the
  admin channel does not throw, \<open>broadcastMessage\<close> issues one send of the content for
  each identifier of the list, in order, that is not excluded and is live text, and then
  one to the admin channel when it was found. Voice channels and identifiers that no
  longer resolve get nothing. An excluded identifier gets a send only when it is the
  identifier of the admin channel. Which sends are issued does not depend on whether any
  of them succeeds.
\<close>

theorem broadcastMessage_reaches_live_text_channels:
  assumes "groupChannelsIdByGuildId svc (guild_id guild) = Some ids"
      and "getAdminChannel env guild = Inr adminChannel"
  shows "map fst (snd (broadcastMessage env P svc guild content excludeGroupIds))
           = filter (\<lambda>i. i \<notin> excluded excludeGroupIds \<and> is_live_text guild i) ids
             @ (case adminChannel of None \<Rightarrow> [] | Some a \<Rightarrow> [channelId a])
       \<and> map snd (snd (broadcastMessage env P svc guild content excludeGroupIds))
           = replicate (length (snd (broadcastMessage env P svc guild content excludeGroupIds)))
               (payload_of content)
       \<and> (\<forall>x \<in> excluded excludeGroupIds.
             x \<in> fst ` set (snd (broadcastMessage env P svc guild content excludeGroupIds))
               \<longrightarrow> map_option channelId adminChannel = Some x)"
proof -
  note t = broadcast_targets[OF assms, of P content excludeGroupIds]
  have "set (map fst (snd (broadcastMessage env P svc guild content excludeGroupIds)))
          \<subseteq> {i. i \<notin> excluded excludeGroupIds} \<union> set_option (map_option channelId adminChannel)"
    unfolding t by (cases adminChannel) auto
  then have "\<forall>x \<in> excluded excludeGroupIds.
             x \<in> fst ` set (snd (broadcastMessage env P svc guild content excludeGroupIds))
               \<longrightarrow> map_option channelId adminChannel = Some x"
    by (cases adminChannel) auto
  with t broadcast_payloads show ?thesis
    by blast
qed

theorem broadcastMessage_reaches_live_text_channels_witness:
  "map fst (snd (broadcastMessage event_env ok_platform event_service event_guild
                   (MessageEmbed ''timer'') (Some [''t2''])))
     = [''t1'', ''a0'']"
  using broadcastMessage_reaches_live_text_channels
          [OF event_list event_admin, of ok_platform "MessageEmbed ''timer''" "Some [''t2'']",
           THEN conjunct1]
  by (simp only: event_filter option.case admin_channel_id append_Cons append_Nil)

text \<open>
  Claim C8 as stated fails: the list of the guild holds the text and the voice channel of
  two groups; a broadcast that excludes the first text channel sends to the second text
  channel and to the admin channel, and to neither voice channel, though neither was
  excluded.
\<close>

theorem voice_channels_get_no_broadcast_counterexample:
  "groupChannelsIdByGuildId event_service (guild_id event_guild)
     = Some [''t1'', ''v1'', ''t2'', ''v2'']
 \<and> broadcastMessage event_env ok_platform event_service event_guild (Text ''go'')
      (Some [''t1''])
     = (None, [(''t2'', Plain ''go''), (''a0'', Plain ''go'')])"
  by (simp add: event_service_def event_guild_def event_env_def ok_platform_def
      broadcastMessage_def getChannel_def getAdminChannel_def parent_def falsy_def
      payload_of_def)

subsection \<open>Creating the groups and cleaning them\<close>

lemma find_cache_set:
  "List.find (\<lambda>c. channelId c = i) (cache_set ch cs)
     = (if i = channelId ch then Some ch else List.find (\<lambda>c. channelId c = i) cs)"
  by (induction cs) auto

lemma createLoop_Cons_ok:
  assumes t: "createResult P (''groupe-'' @ string_of_int k) = Some t"
      and v: "createResult P (''voice-groupe-'' @ string_of_int k) = Some v"
      and pt: "setParentOk P t" and pv: "setParentOk P v"
  shows "\<exists>guild4. guild_id guild4 = guild_id guild
           \<and> (\<forall>i. getChannel guild4 i =
                  (if i = v
                   then Some (group_channel v (''voice-groupe-'' @ string_of_int k) GUILD_VOICE
                                categoryId)
                   else if i = t
                   then Some (group_channel t (''groupe-'' @ string_of_int k) GUILD_TEXT
                                categoryId)
                   else getChannel guild i))
           \<and> createLoop P categoryId (k # ks) (svc, guild)
               = createLoop P categoryId ks
                   (svc\<lparr>groupChannelsIdByGuildId :=
                          (groupChannelsIdByGuildId svc)
                            (guild_id guild \<mapsto>
                               (case groupChannelsIdByGuildId svc (guild_id guild) of
                                  Some ids \<Rightarrow> ids @ [t, v] | None \<Rightarrow> [t, v]))\<rparr>, guild4)"
proof -
  define ch_t where "ch_t = \<lparr> channelId = t, channelName = ''groupe-'' @ string_of_int k,
                              channelType = GUILD_TEXT, parentId = None \<rparr>"
  define ch_v where "ch_v = \<lparr> channelId = v, channelName = ''voice-groupe-'' @ string_of_int k,
                              channelType = GUILD_VOICE, parentId = None \<rparr>"
  define g1 where "g1 = guild\<lparr>cache := cache_set ch_t (cache guild)\<rparr>"
  define g2 where "g2 = g1\<lparr>cache := cache_set (ch_t\<lparr>parentId := Some categoryId\<rparr>) (cache g1)\<rparr>"
  define g3 where "g3 = g2\<lparr>cache := cache_set ch_v (cache g2)\<rparr>"
  define g4 where "g4 = g3\<lparr>cache := cache_set (ch_v\<lparr>parentId := Some categoryId\<rparr>) (cache g3)\<rparr>"
  have ids: "channelId ch_t = t" "channelId ch_v = v"
    by (simp_all add: ch_t_def ch_v_def)
  have parented:
    "ch_t\<lparr>parentId := Some categoryId\<rparr>
       = group_channel t (''groupe-'' @ string_of_int k) GUILD_TEXT categoryId"
    "ch_v\<lparr>parentId := Some categoryId\<rparr>
       = group_channel v (''voice-groupe-'' @ string_of_int k) GUILD_VOICE categoryId"
    by (simp_all only: ch_t_def ch_v_def group_channel_def Channel.simps)
  have c1: "channels_create P (''groupe-'' @ string_of_int k) GUILD_TEXT guild = Some (ch_t, g1)"
    by (simp only: channels_create_def t option.case Let_def ch_t_def g1_def)
  have c2: "setParent P categoryId ch_t g1 = Some g2"
    by (simp only: setParent_def ids pt if_True g2_def)
  have c3: "channels_create P (''voice-groupe-'' @ string_of_int k) GUILD_VOICE g2 = Some (ch_v, g3)"
    by (simp only: channels_create_def v option.case Let_def ch_v_def g3_def)
  have c4: "setParent P categoryId ch_v g3 = Some g4"
    by (simp only: setParent_def ids pv if_True g4_def)
  have gid: "guild_id g4 = guild_id guild"
    by (simp add: g4_def g3_def g2_def g1_def)
  have res: "\<forall>i. getChannel g4 i =
                  (if i = v
                   then Some (group_channel v (''voice-groupe-'' @ string_of_int k) GUILD_VOICE
                                categoryId)
                   else if i = t
                   then Some (group_channel t (''groupe-'' @ string_of_int k) GUILD_TEXT
                                categoryId)
                   else getChannel guild i)"
    unfolding g4_def g3_def g2_def g1_def parented[symmetric]
    by (simp add: getChannel_def find_cache_set ids)
  have loop: "createLoop P categoryId (k # ks) (svc, guild)
               = createLoop P categoryId ks
                   (svc\<lparr>groupChannelsIdByGuildId :=
                          (groupChannelsIdByGuildId svc)
                            (guild_id guild \<mapsto>
                               (case groupChannelsIdByGuildId svc (guild_id guild) of
                                  Some ids \<Rightarrow> ids @ [t, v] | None \<Rightarrow> [t, v]))\<rparr>, g4)"
    by (simp only: createLoop.simps c1 c2 c3 c4 option.case prod.case ids)
  show ?thesis
    by (intro exI[of _ g4] conjI gid res loop)
qed

lemma createLoop_ok:
  assumes "\<forall>k \<in> set ks. platform_ok P k"
  shows "\<exists>guild'. guild_id guild' = guild_id guild
           \<and> (\<forall>i. getChannel guild' i \<noteq> None
                  \<longleftrightarrow> i \<in> set (created_ids P ks) \<or> getChannel guild i \<noteq> None)
           \<and> (\<forall>i. i \<notin> set (created_ids P ks) \<longrightarrow> getChannel guild' i = getChannel guild i)
           \<and> (distinct (created_ids P ks) \<longrightarrow>
                 (\<forall>k \<in> set ks. channels_as_created P categoryId guild' k))
           \<and> createLoop P categoryId ks (svc, guild)
               = (None,
                  svc\<lparr>groupChannelsIdByGuildId :=
                        (groupChannelsIdByGuildId svc)
                          (guild_id guild :=
                             appended (groupChannelsIdByGuildId svc (guild_id guild))
                               (created_ids P ks))\<rparr>,
                  guild')"
  using assms
proof (induction ks arbitrary: svc guild)
  case Nil
  show ?case
    by (simp add: created_ids_def appended_def)
next
  case (Cons k ks)
  from Cons.prems have "platform_ok P k"
    by simp
  then obtain t v where t: "createResult P (''groupe-'' @ string_of_int k) = Some t"
      and v: "createResult P (''voice-groupe-'' @ string_of_int k) = Some v"
      and pt: "setParentOk P t" and pv: "setParentOk P v"
    by (auto simp: platform_ok_def split: option.splits)
  let ?svc' = "svc\<lparr>groupChannelsIdByGuildId :=
                          (groupChannelsIdByGuildId svc)
                            (guild_id guild \<mapsto>
                               (case groupChannelsIdByGuildId svc (guild_id guild) of
                                  Some ids \<Rightarrow> ids @ [t, v] | None \<Rightarrow> [t, v]))\<rparr>"
  from createLoop_Cons_ok[OF t v pt pv, of guild categoryId ks svc]
  obtain guild4 where g4: "guild_id guild4 = guild_id guild"
     and r4: "\<forall>i. getChannel guild4 i =
                  (if i = v
                   then Some (group_channel v (''voice-groupe-'' @ string_of_int k) GUILD_VOICE
                                categoryId)
                   else if i = t
                   then Some (group_channel t (''groupe-'' @ string_of_int k) GUILD_TEXT
                                categoryId)
                   else getChannel guild i)"
     and e4: "createLoop P categoryId (k # ks) (svc, guild)
                = createLoop P categoryId ks (?svc', guild4)"
    by blast
  from Cons.prems have rest: "\<forall>k \<in> set ks. platform_ok P k"
    by simp
  from Cons.IH[OF rest, of guild4 ?svc']
  obtain guild' where g': "guild_id guild' = guild_id guild4"
     and r': "\<forall>i. getChannel guild' i \<noteq> None
                  \<longleftrightarrow> i \<in> set (created_ids P ks) \<or> getChannel guild4 i \<noteq> None"
     and f': "\<forall>i. i \<notin> set (created_ids P ks) \<longrightarrow> getChannel guild' i = getChannel guild4 i"
     and d': "distinct (created_ids P ks) \<longrightarrow>
                 (\<forall>k \<in> set ks. channels_as_created P categoryId guild' k)"
     and e': "createLoop P categoryId ks (?svc', guild4)
               = (None,
                  ?svc'\<lparr>groupChannelsIdByGuildId :=
                        (groupChannelsIdByGuildId ?svc')
                          (guild_id guild4 :=
                             appended (groupChannelsIdByGuildId ?svc' (guild_id guild4))
                               (created_ids P ks))\<rparr>,
                  guild')"
    by blast
  have c: "created_ids P (k # ks) = [t, v] @ created_ids P ks"
    using t v by (simp add: created_ids_def)
  have svc_eq: "?svc'\<lparr>groupChannelsIdByGuildId :=
                        (groupChannelsIdByGuildId ?svc')
                          (guild_id guild4 :=
                             appended (groupChannelsIdByGuildId ?svc' (guild_id guild4))
                               (created_ids P ks))\<rparr>
       = svc\<lparr>groupChannelsIdByGuildId :=
                        (groupChannelsIdByGuildId svc)
                          (guild_id guild :=
                             appended (groupChannelsIdByGuildId svc (guild_id guild))
                               (created_ids P (k # ks)))\<rparr>"
    by (simp add: g4 c appended_def split: option.splits)
  have res: "\<forall>i. getChannel guild' i \<noteq> None
                  \<longleftrightarrow> i \<in> set (created_ids P (k # ks)) \<or> getChannel guild i \<noteq> None"
    using r' r4 by (auto simp: c)
  have frame: "\<forall>i. i \<notin> set (created_ids P (k # ks)) \<longrightarrow> getChannel guild' i = getChannel guild i"
    using f' r4 by (simp add: c)
  have dist: "distinct (created_ids P (k # ks)) \<longrightarrow>
                 (\<forall>k' \<in> set (k # ks). channels_as_created P categoryId guild' k')"
  proof
    assume d: "distinct (created_ids P (k # ks))"
    then have tv: "t \<noteq> v" and tn: "t \<notin> set (created_ids P ks)"
      and vn: "v \<notin> set (created_ids P ks)" and dr: "distinct (created_ids P ks)"
      by (simp_all add: c)
    from f' tn r4 tv have gt: "getChannel guild' t
        = Some (group_channel t (''groupe-'' @ string_of_int k) GUILD_TEXT categoryId)"
      by simp
    from f' vn r4 have gv: "getChannel guild' v
        = Some (group_channel v (''voice-groupe-'' @ string_of_int k) GUILD_VOICE categoryId)"
      by simp
    have "channels_as_created P categoryId guild' k"
      unfolding channels_as_created_def by (simp only: t v option.sel gt gv simp_thms)
    with d'[rule_format, OF dr]
    show "\<forall>k' \<in> set (k # ks). channels_as_created P categoryId guild' k'"
      by simp
  qed
  have gid: "guild_id guild' = guild_id guild"
    by (simp only: g' g4)
  have e: "createLoop P categoryId (k # ks) (svc, guild)
             = (None,
                svc\<lparr>groupChannelsIdByGuildId :=
                      (groupChannelsIdByGuildId svc)
                        (guild_id guild :=
                           appended (groupChannelsIdByGuildId svc (guild_id guild))
                             (created_ids P (k # ks)))\<rparr>,
                guild')"
    by (simp only: e4 e' svc_eq)
  show ?case
    by (intro exI[of _ guild'] conjI gid res frame dist e)
qed

lemma deleted_resolving:
  "concat (map (\<lambda>groupId. case getChannel guild groupId of
                             Some channel \<Rightarrow> [channelId channel]
                           | None \<Rightarrow> []) groupsId)
     = filter (\<lambda>i. getChannel guild i \<noteq> None) groupsId"
  by (induction groupsId) (auto simp: getChannel_id split: option.splits)

lemma cleanGroupChannels_all_resolve:
  assumes "groupChannelsIdByGuildId svc (guild_id guild) = Some groupsId"
      and "\<forall>i \<in> set groupsId. getChannel guild i \<noteq> None"
  shows "cleanGroupChannels Q (svc, guild)
           = (if list_all (deleteOk Q) groupsId
              then (None, groupsId,
                    saveState Q (guild_id guild)
                      (svc\<lparr>groupChannelsIdByGuildId :=
                             (groupChannelsIdByGuildId svc)(guild_id guild \<mapsto> [])\<rparr>),
                    guild\<lparr>cache := filter (\<lambda>c. \<not> (channelId c \<in> set groupsId
                                                      \<and> deleteOk Q (channelId c)))
                                          (cache guild)\<rparr>)
              else (Some PlatformFailure, groupsId, svc,
                    guild\<lparr>cache := filter (\<lambda>c. \<not> (channelId c \<in> set groupsId
                                                      \<and> deleteOk Q (channelId c)))
                                          (cache guild)\<rparr>))"
proof -
  from assms(2) have f: "filter (\<lambda>i. getChannel guild i \<noteq> None) groupsId = groupsId"
    by (simp add: filter_id_conv)
  have del: "concat (map (\<lambda>groupId. case getChannel guild groupId of
                             Some channel \<Rightarrow> [channelId channel]
                           | None \<Rightarrow> []) groupsId) = groupsId"
    by (simp only: deleted_resolving f)
  show ?thesis
    unfolding cleanGroupChannels_def
    by (simp only: fst_conv snd_conv Let_def assms(1) option.case del)
qed

lemma cleanGroupChannels_empty:
  assumes "groupChannelsIdByGuildId svc (guild_id guild) = Some []"
  shows "cleanGroupChannels R (svc, guild)
           = (None, [], saveState R (guild_id guild) svc, guild)"
proof -
  have "(groupChannelsIdByGuildId svc)(guild_id guild \<mapsto> []) = groupChannelsIdByGuildId svc"
    using assms by (simp add: fun_upd_idem)
  then show ?thesis
    by (simp add: cleanGroupChannels_def assms Let_def)
qed

lemma saveState_list: "groupChannelsIdByGuildId (saveState P gid svc) = groupChannelsIdByGuildId svc"
  by (simp add: saveState_def split: option.splits)

lemma saveState_files:
  "groupChannelsIdByGuildId svc gid = Some ids \<Longrightarrow>
   stateFiles (saveState R gid svc)
     = (if saveResourceOk R then (stateFiles svc)(gid \<mapsto> ids) else stateFiles svc)"
  by (simp add: saveState_def)

lemma string_of_int_123:
  "string_of_int 1 = ''1''" "string_of_int 2 = ''2''" "string_of_int 3 = ''3''"
  by (simp_all add: string_of_int_def string_of_nat.simps digit_char_def)

lemma upto_1_3: "[1..3::int] = [1, 2, 3]"
  by (simp add: upto_rec1)

lemma platform_okI:
  "createResult P (''groupe-'' @ string_of_int k) = Some t \<Longrightarrow>
   createResult P (''voice-groupe-'' @ string_of_int k) = Some v \<Longrightarrow>
   setParentOk P t \<Longrightarrow> setParentOk P v \<Longrightarrow> platform_ok P k"
  by (simp only: platform_ok_def option.case simp_thms)

lemma created_ids_Nil: "created_ids P [] = []"
  by (simp add: created_ids_def)

lemma created_ids_Cons:
  "createResult P (''groupe-'' @ string_of_int k) = Some t \<Longrightarrow>
   createResult P (''voice-groupe-'' @ string_of_int k) = Some v \<Longrightarrow>
   created_ids P (k # ks) = t # v # created_ids P ks"
  by (simp only: created_ids_def list.map concat.simps option.sel append_Cons append_Nil)

lemma channels_as_createdD:
  assumes "channels_as_created P categoryId guild' k"
      and "createResult P (''groupe-'' @ string_of_int k) = Some t"
      and "createResult P (''voice-groupe-'' @ string_of_int k) = Some v"
  shows "getChannel guild' t
           = Some (group_channel t (''groupe-'' @ string_of_int k) GUILD_TEXT categoryId)"
    and "getChannel guild' v
           = Some (group_channel v (''voice-groupe-'' @ string_of_int k) GUILD_VOICE categoryId)"
  using assms(1) unfolding channels_as_created_def by (simp_all only: assms(2,3) option.sel)

lemma createGroupChannels_three:
  assumes cfg: "massMultiplayerEventCategoryName env = Some categoryName" "categoryName \<noteq> []"
      and cat: "getCategoryIdByName guild categoryName = Some categoryId" "categoryId \<noteq> []"
      and created:
        "createResult P ''groupe-1'' = Some t1" "createResult P ''voice-groupe-1'' = Some v1"
        "createResult P ''groupe-2'' = Some t2" "createResult P ''voice-groupe-2'' = Some v2"
        "createResult P ''groupe-3'' = Some t3" "createResult P ''voice-groupe-3'' = Some v3"
      and parented: "list_all (setParentOk P) [t1, v1, t2, v2, t3, v3]"
  shows "\<exists>guild1.
           createGroupChannels env P 3 (svc, guild)
             = (None,
                saveState P (guild_id guild)
                  (svc\<lparr>groupChannelsIdByGuildId :=
                         (groupChannelsIdByGuildId svc)
                           (guild_id guild \<mapsto>
                              (case groupChannelsIdByGuildId svc (guild_id guild) of
                                 None \<Rightarrow> [] | Some ids \<Rightarrow> ids) @ [t1, v1, t2, v2, t3, v3])\<rparr>),
                guild1)
         \<and> guild_id guild1 = guild_id guild
         \<and> (\<forall>i. getChannel guild1 i \<noteq> None
                \<longleftrightarrow> i \<in> set [t1, v1, t2, v2, t3, v3] \<or> getChannel guild i \<noteq> None)
         \<and> (distinct [t1, v1, t2, v2, t3, v3] \<longrightarrow>
               map (getChannel guild1) [t1, v1, t2, v2, t3, v3]
                 = [Some (group_channel t1 ''groupe-1'' GUILD_TEXT categoryId),
                    Some (group_channel v1 ''voice-groupe-1'' GUILD_VOICE categoryId),
                    Some (group_channel t2 ''groupe-2'' GUILD_TEXT categoryId),
                    Some (group_channel v2 ''voice-groupe-2'' GUILD_VOICE categoryId),
                    Some (group_channel t3 ''groupe-3'' GUILD_TEXT categoryId),
                    Some (group_channel v3 ''voice-groupe-3'' GUILD_VOICE categoryId)])"
proof -
  let ?six = "[t1, v1, t2, v2, t3, v3]"
  let ?gid = "guild_id guild"
  have names:
    "createResult P (''groupe-'' @ string_of_int 1) = Some t1"
    "createResult P (''voice-groupe-'' @ string_of_int 1) = Some v1"
    "createResult P (''groupe-'' @ string_of_int 2) = Some t2"
    "createResult P (''voice-groupe-'' @ string_of_int 2) = Some v2"
    "createResult P (''groupe-'' @ string_of_int 3) = Some t3"
    "createResult P (''voice-groupe-'' @ string_of_int 3) = Some v3"
    using created by (simp_all only: string_of_int_123 append_Cons append_Nil)
  from parented have par: "setParentOk P t1" "setParentOk P v1" "setParentOk P t2"
      "setParentOk P v2" "setParentOk P t3" "setParentOk P v3"
    by simp_all
  have "platform_ok P 1" "platform_ok P 2" "platform_ok P 3"
    by (rule platform_okI[OF names(1,2) par(1,2)], rule platform_okI[OF names(3,4) par(3,4)],
        rule platform_okI[OF names(5,6) par(5,6)])
  then have ok: "\<forall>k \<in> set [1, 2, 3]. platform_ok P k"
    by simp
  have ids: "created_ids P [1, 2, 3] = ?six"
    by (simp only: created_ids_Cons[OF names(1,2)] created_ids_Cons[OF names(3,4)]
        created_ids_Cons[OF names(5,6)] created_ids_Nil)
  have app: "appended (groupChannelsIdByGuildId svc ?gid) ?six
               = Some ((case groupChannelsIdByGuildId svc ?gid of
                          None \<Rightarrow> [] | Some ids \<Rightarrow> ids) @ ?six)"
    by (simp add: appended_def)
  from createLoop_ok[OF ok, of guild categoryId svc]
  obtain guild1 where g1: "guild_id guild1 = ?gid"
      and res: "\<forall>i. getChannel guild1 i \<noteq> None \<longleftrightarrow> i \<in> set ?six \<or> getChannel guild i \<noteq> None"
      and made: "distinct ?six \<longrightarrow>
                   (\<forall>k \<in> set [1, 2, 3]. channels_as_created P categoryId guild1 k)"
      and loop: "createLoop P categoryId [1, 2, 3] (svc, guild)
                   = (None,
                      svc\<lparr>groupChannelsIdByGuildId :=
                            (groupChannelsIdByGuildId svc)
                              (?gid \<mapsto> (case groupChannelsIdByGuildId svc ?gid of
                                             None \<Rightarrow> [] | Some ids \<Rightarrow> ids) @ ?six)\<rparr>,
                      guild1)"
    unfolding ids app by blast
  have create: "createGroupChannels env P 3 (svc, guild)
             = (None,
                saveState P ?gid
                  (svc\<lparr>groupChannelsIdByGuildId :=
                         (groupChannelsIdByGuildId svc)
                           (?gid \<mapsto> (case groupChannelsIdByGuildId svc ?gid of
                                          None \<Rightarrow> [] | Some ids \<Rightarrow> ids) @ ?six)\<rparr>),
                guild1)"
    unfolding createGroupChannels_def
    by (simp only: cfg cat option.case if_False snd_conv upto_1_3 loop prod.case g1)
  have types: "distinct ?six \<longrightarrow>
               map (getChannel guild1) ?six
                 = [Some (group_channel t1 ''groupe-1'' GUILD_TEXT categoryId),
                    Some (group_channel v1 ''voice-groupe-1'' GUILD_VOICE categoryId),
                    Some (group_channel t2 ''groupe-2'' GUILD_TEXT categoryId),
                    Some (group_channel v2 ''voice-groupe-2'' GUILD_VOICE categoryId),
                    Some (group_channel t3 ''groupe-3'' GUILD_TEXT categoryId),
                    Some (group_channel v3 ''voice-groupe-3'' GUILD_VOICE categoryId)]"
  proof
    assume "distinct ?six"
    with made have m: "channels_as_created P categoryId guild1 1"
      "channels_as_created P categoryId guild1 2" "channels_as_created P categoryId guild1 3"
      by simp_all
    note k1 = channels_as_createdD[OF m(1) names(1,2)]
    note k2 = channels_as_createdD[OF m(2) names(3,4)]
    note k3 = channels_as_createdD[OF m(3) names(5,6)]
    show "map (getChannel guild1) ?six
                 = [Some (group_channel t1 ''groupe-1'' GUILD_TEXT categoryId),
                    Some (group_channel v1 ''voice-groupe-1'' GUILD_VOICE categoryId),
                    Some (group_channel t2 ''groupe-2'' GUILD_TEXT categoryId),
                    Some (group_channel v2 ''voice-groupe-2'' GUILD_VOICE categoryId),
                    Some (group_channel t3 ''groupe-3'' GUILD_TEXT categoryId),
                    Some (group_channel v3 ''voice-groupe-3'' GUILD_VOICE categoryId)]"
      by (simp only: list.map k1 k2 k3 string_of_int_123 append_Cons append_Nil)
  qed
  show ?thesis
    by (intro exI[of _ guild1] conjI create g1 res types)
qed

text \<open>
  Claim C7, as the code has it. Take a configured category that exists in the guild, a
  guild whose list of group channels is absent or empty, a platform that accepts the six
  creations with their \<open>setParent\<close> calls, and one that then accepts the six deletions.
  Then \<open>createGroupChannels\<close> for 3 groups returns with the list holding the six new
  identifiers, text before voice for groups 1 to 3, which, when the six identifiers
  differ, resolve to the text channel and the voice channel of each group under the
  category. \<open>cleanGroupChannels\<close> after it calls \<open>delete\<close> on exactly these six and
  leaves the list empty. A second \<open>cleanGroupChannels\<close>, whatever the platform then
  answers, returns without error, deletes nothing and leaves the list and the guild as
  they were; it only writes the empty list to the state file again.
\<close>

theorem createGroups_then_cleanGroups:
  assumes cfg: "massMultiplayerEventCategoryName env = Some categoryName" "categoryName \<noteq> []"
      and cat: "getCategoryIdByName guild categoryName = Some categoryId" "categoryId \<noteq> []"
      and fresh: "groupChannelsIdByGuildId svc (guild_id guild) = None
                  \<or> groupChannelsIdByGuildId svc (guild_id guild) = Some []"
      and created:
        "createResult P ''groupe-1'' = Some t1" "createResult P ''voice-groupe-1'' = Some v1"
        "createResult P ''groupe-2'' = Some t2" "createResult P ''voice-groupe-2'' = Some v2"
        "createResult P ''groupe-3'' = Some t3" "createResult P ''voice-groupe-3'' = Some v3"
      and parented: "list_all (setParentOk P) [t1, v1, t2, v2, t3, v3]"
      and deletable: "list_all (deleteOk Q) [t1, v1, t2, v2, t3, v3]"
  shows "\<exists>svc1 guild1 svc2 guild2.
           createGroupChannels env P 3 (svc, guild) = (None, svc1, guild1)
         \<and> groupChannelsIdByGuildId svc1 (guild_id guild) = Some [t1, v1, t2, v2, t3, v3]
         \<and> (distinct [t1, v1, t2, v2, t3, v3] \<longrightarrow>
               map (getChannel guild1) [t1, v1, t2, v2, t3, v3]
                 = [Some (group_channel t1 ''groupe-1'' GUILD_TEXT categoryId),
                    Some (group_channel v1 ''voice-groupe-1'' GUILD_VOICE categoryId),
                    Some (group_channel t2 ''groupe-2'' GUILD_TEXT categoryId),
                    Some (group_channel v2 ''voice-groupe-2'' GUILD_VOICE categoryId),
                    Some (group_channel t3 ''groupe-3'' GUILD_TEXT categoryId),
                    Some (group_channel v3 ''voice-groupe-3'' GUILD_VOICE categoryId)])
         \<and> cleanGroupChannels Q (svc1, guild1) = (None, [t1, v1, t2, v2, t3, v3], svc2, guild2)
         \<and> groupChannelsIdByGuildId svc2 (guild_id guild) = Some []
         \<and> cleanGroupChannels R (svc2, guild2)
             = (None, [], saveState R (guild_id guild) svc2, guild2)
         \<and> groupChannelsIdByGuildId (saveState R (guild_id guild) svc2)
             = groupChannelsIdByGuildId svc2
         \<and> stateFiles (saveState R (guild_id guild) svc2)
             = (if saveResourceOk R then (stateFiles svc2)(guild_id guild \<mapsto> [])
                else stateFiles svc2)"
proof -
  let ?six = "[t1, v1, t2, v2, t3, v3]"
  let ?gid = "guild_id guild"
  from createGroupChannels_three[OF cfg cat created parented, of svc]
  obtain guild1 where create0: "createGroupChannels env P 3 (svc, guild)
             = (None,
                saveState P ?gid
                  (svc\<lparr>groupChannelsIdByGuildId :=
                         (groupChannelsIdByGuildId svc)
                           (?gid \<mapsto> (case groupChannelsIdByGuildId svc ?gid of
                                          None \<Rightarrow> [] | Some ids \<Rightarrow> ids) @ ?six)\<rparr>),
                guild1)"
      and g1: "guild_id guild1 = ?gid"
      and res: "\<forall>i. getChannel guild1 i \<noteq> None \<longleftrightarrow> i \<in> set ?six \<or> getChannel guild i \<noteq> None"
      and types: "distinct ?six \<longrightarrow>
               map (getChannel guild1) ?six
                 = [Some (group_channel t1 ''groupe-1'' GUILD_TEXT categoryId),
                    Some (group_channel v1 ''voice-groupe-1'' GUILD_VOICE categoryId),
                    Some (group_channel t2 ''groupe-2'' GUILD_TEXT categoryId),
                    Some (group_channel v2 ''voice-groupe-2'' GUILD_VOICE categoryId),
                    Some (group_channel t3 ''groupe-3'' GUILD_TEXT categoryId),
                    Some (group_channel v3 ''voice-groupe-3'' GUILD_VOICE categoryId)]"
    by (elim exE conjE) (rule that)
  define svc1 where "svc1 = saveState P ?gid
                       (svc\<lparr>groupChannelsIdByGuildId :=
                              (groupChannelsIdByGuildId svc)
                                (?gid \<mapsto> (case groupChannelsIdByGuildId svc ?gid of
                                               None \<Rightarrow> [] | Some ids \<Rightarrow> ids) @ ?six)\<rparr>)"
  have create: "createGroupChannels env P 3 (svc, guild) = (None, svc1, guild1)"
    by (simp only: create0 svc1_def)
  define svc2 where "svc2 = saveState Q ?gid
                       (svc1\<lparr>groupChannelsIdByGuildId :=
                               (groupChannelsIdByGuildId svc1)(?gid \<mapsto> [])\<rparr>)"
  define guild2 where "guild2 = guild1\<lparr>cache := filter (\<lambda>c. \<not> (channelId c \<in> set ?six
                                                               \<and> deleteOk Q (channelId c)))
                                                    (cache guild1)\<rparr>"
  have list1: "groupChannelsIdByGuildId svc1 ?gid = Some ?six"
    using fresh by (auto simp add: svc1_def saveState_list)
  have list1': "groupChannelsIdByGuildId svc1 (guild_id guild1) = Some ?six"
    by (simp only: g1 list1)
  have all: "\<forall>i \<in> set ?six. getChannel guild1 i \<noteq> None"
    using res by simp
  have clean1: "cleanGroupChannels Q (svc1, guild1) = (None, ?six, svc2, guild2)"
    using cleanGroupChannels_all_resolve[OF list1' all, of Q]
    by (simp only: deletable if_True g1 svc2_def guild2_def)
  have list2: "groupChannelsIdByGuildId svc2 ?gid = Some []"
    by (simp add: svc2_def saveState_list)
  have g2: "guild_id guild2 = ?gid"
    by (simp add: guild2_def g1)
  have list2': "groupChannelsIdByGuildId svc2 (guild_id guild2) = Some []"
    by (simp only: g2 list2)
  have clean2: "cleanGroupChannels R (svc2, guild2) = (None, [], saveState R ?gid svc2, guild2)"
    using cleanGroupChannels_empty[OF list2', of R] by (simp only: g2)
  have keep: "groupChannelsIdByGuildId (saveState R ?gid svc2) = groupChannelsIdByGuildId svc2"
    by (rule saveState_list)
  have files: "stateFiles (saveState R ?gid svc2)
             = (if saveResourceOk R then (stateFiles svc2)(?gid \<mapsto> []) else stateFiles svc2)"
    by (rule saveState_files[OF list2])
  show ?thesis
    by (intro exI[of _ svc1] exI[of _ guild1] exI[of _ svc2] exI[of _ guild2] conjI
        create list1 types clean1 list2 clean2 keep files)
qed

lemma event_category: "getCategoryIdByName event_guild ''event'' = Some ''c0''"
  by (simp add: getCategoryIdByName_def event_guild_def)

lemma event_env_category: "massMultiplayerEventCategoryName event_env = Some ''event''"
  by (simp add: event_env_def)

lemma event_guild_id: "guild_id event_guild = ''guild''"
  by (simp add: event_guild_def)

lemma ok_platform_create:
  "createResult ok_platform nm = Some (''id-'' @ nm)"
  "createResult flaky_platform nm = Some (''id-'' @ nm)"
  by (simp_all add: ok_platform_def flaky_platform_def)

lemma ok_platform_ok: "setParentOk ok_platform i" "deleteOk ok_platform i"
  by (simp_all add: ok_platform_def)

lemma six_ids:
  "createResult ok_platform ''groupe-1'' = Some ''id-groupe-1''"
  "createResult ok_platform ''voice-groupe-1'' = Some ''id-voice-groupe-1''"
  "createResult ok_platform ''groupe-2'' = Some ''id-groupe-2''"
  "createResult ok_platform ''voice-groupe-2'' = Some ''id-voice-groupe-2''"
  "createResult ok_platform ''groupe-3'' = Some ''id-groupe-3''"
  "createResult ok_platform ''voice-groupe-3'' = Some ''id-voice-groupe-3''"
  by (simp_all add: ok_platform_create)

lemma six_ok:
  "list_all (setParentOk ok_platform)
     [''id-groupe-1'', ''id-voice-groupe-1'', ''id-groupe-2'', ''id-voice-groupe-2'',
      ''id-groupe-3'', ''id-voice-groupe-3'']"
  "list_all (deleteOk ok_platform)
     [''id-groupe-1'', ''id-voice-groupe-1'', ''id-groupe-2'', ''id-voice-groupe-2'',
      ''id-groupe-3'', ''id-voice-groupe-3'']"
  by (simp_all add: ok_platform_ok)

lemma six_flaky:
  "\<not> list_all (deleteOk flaky_platform)
     [''id-groupe-1'', ''id-voice-groupe-1'', ''id-groupe-2'', ''id-voice-groupe-2'',
      ''id-groupe-3'', ''id-voice-groupe-3'']"
  by (simp add: flaky_platform_def)

lemma six_distinct:
  "distinct [''id-groupe-1'', ''id-voice-groupe-1'', ''id-groupe-2'', ''id-voice-groupe-2'',
             ''id-groupe-3'', ''id-voice-groupe-3'']"
  by simp

lemma event_guild_resolves:
  "\<forall>i \<in> set [''t1'', ''v1'', ''t2'', ''v2'']. getChannel event_guild i \<noteq> None"
  by (simp add: getChannel_def event_guild_def)

lemma initial_fresh:
  "groupChannelsIdByGuildId initial_service (guild_id event_guild) = None
   \<or> groupChannelsIdByGuildId initial_service (guild_id event_guild) = Some []"
  by (simp add: initial_list)

text \<open>
  On the example guild, from the initial service: the six identifiers are in the list,
  text and voice alternate, all six are deleted, and the second clean deletes nothing.
\<close>

theorem createGroups_then_cleanGroups_witness:
  "\<exists>svc1 guild1 svc2 guild2.
     createGroupChannels event_env ok_platform 3 (initial_service, event_guild)
       = (None, svc1, guild1)
   \<and> groupChannelsIdByGuildId svc1 (guild_id event_guild)
       = Some [''id-groupe-1'', ''id-voice-groupe-1'', ''id-groupe-2'', ''id-voice-groupe-2'',
               ''id-groupe-3'', ''id-voice-groupe-3'']
   \<and> map (getChannel guild1)
        [''id-groupe-1'', ''id-voice-groupe-1'', ''id-groupe-2'', ''id-voice-groupe-2'',
         ''id-groupe-3'', ''id-voice-groupe-3'']
       = [Some (group_channel ''id-groupe-1'' ''groupe-1'' GUILD_TEXT ''c0''),
          Some (group_channel ''id-voice-groupe-1'' ''voice-groupe-1'' GUILD_VOICE ''c0''),
          Some (group_channel ''id-groupe-2'' ''groupe-2'' GUILD_TEXT ''c0''),
          Some (group_channel ''id-voice-groupe-2'' ''voice-groupe-2'' GUILD_VOICE ''c0''),
          Some (group_channel ''id-groupe-3'' ''groupe-3'' GUILD_TEXT ''c0''),
          Some (group_channel ''id-voice-groupe-3'' ''voice-groupe-3'' GUILD_VOICE ''c0'')]
   \<and> cleanGroupChannels ok_platform (svc1, guild1)
       = (None,
          [''id-groupe-1'', ''id-voice-groupe-1'', ''id-groupe-2'', ''id-voice-groupe-2'',
           ''id-groupe-3'', ''id-voice-groupe-3''],
          svc2, guild2)
   \<and> groupChannelsIdByGuildId svc2 (guild_id event_guild) = Some []
   \<and> cleanGroupChannels flaky_platform (svc2, guild2)
       = (None, [], saveState flaky_platform (guild_id event_guild) svc2, guild2)"
proof -
  have ne: "''event'' \<noteq> []" "''c0'' \<noteq> []"
    by simp_all
  from createGroups_then_cleanGroups
         [OF event_env_category ne(1) event_category ne(2) initial_fresh six_ids six_ok,
          of flaky_platform]
  obtain svc1 guild1 svc2 guild2 where
        a: "createGroupChannels event_env ok_platform 3 (initial_service, event_guild)
              = (None, svc1, guild1)"
    and b: "groupChannelsIdByGuildId svc1 (guild_id event_guild)
              = Some [''id-groupe-1'', ''id-voice-groupe-1'', ''id-groupe-2'',
                      ''id-voice-groupe-2'', ''id-groupe-3'', ''id-voice-groupe-3'']"
    and c: "distinct [''id-groupe-1'', ''id-voice-groupe-1'', ''id-groupe-2'',
                      ''id-voice-groupe-2'', ''id-groupe-3'', ''id-voice-groupe-3''] \<longrightarrow>
            map (getChannel guild1)
              [''id-groupe-1'', ''id-voice-groupe-1'', ''id-groupe-2'', ''id-voice-groupe-2'',
               ''id-groupe-3'', ''id-voice-groupe-3'']
             = [Some (group_channel ''id-groupe-1'' ''groupe-1'' GUILD_TEXT ''c0''),
                Some (group_channel ''id-voice-groupe-1'' ''voice-groupe-1'' GUILD_VOICE ''c0''),
                Some (group_channel ''id-groupe-2'' ''groupe-2'' GUILD_TEXT ''c0''),
                Some (group_channel ''id-voice-groupe-2'' ''voice-groupe-2'' GUILD_VOICE ''c0''),
                Some (group_channel ''id-groupe-3'' ''groupe-3'' GUILD_TEXT ''c0''),
                Some (group_channel ''id-voice-groupe-3'' ''voice-groupe-3'' GUILD_VOICE ''c0'')]"
    and d: "cleanGroupChannels ok_platform (svc1, guild1)
              = (None,
                 [''id-groupe-1'', ''id-voice-groupe-1'', ''id-groupe-2'',
                  ''id-voice-groupe-2'', ''id-groupe-3'', ''id-voice-groupe-3''],
                 svc2, guild2)"
    and e: "groupChannelsIdByGuildId svc2 (guild_id event_guild) = Some []"
    and f: "cleanGroupChannels flaky_platform (svc2, guild2)
              = (None, [], saveState flaky_platform (guild_id event_guild) svc2, guild2)"
    by (elim exE conjE) (rule that)
  show ?thesis
    by (intro exI[of _ svc1] exI[of _ guild1] exI[of _ svc2] exI[of _ guild2] conjI
        a b c[rule_format, OF six_distinct] d e f)
qed

lemma event_service_list:
  "groupChannelsIdByGuildId event_service (guild_id event_guild)
     = Some [''t1'', ''v1'', ''t2'', ''v2'']"
  by (simp add: event_service_def event_guild_def)

text \<open>
  Claim C7 as stated fails in two ways. On a guild whose list already holds four
  identifiers that resolve, \<open>createGroupChannels\<close> for 3 groups followed by
  \<open>cleanGroupChannels\<close> calls \<open>delete\<close> on ten identifiers, the four old and the six
  new. And from an empty state, when the platform rejects the deletion of one of the six
  channels, \<open>cleanGroupChannels\<close> fails and the list still holds all six identifiers.
\<close>

theorem clean_deletes_more_or_keeps_list_counterexample:
  "fst (snd (cleanGroupChannels ok_platform
               (snd (createGroupChannels event_env ok_platform 3
                       (event_service, event_guild)))))
     = [''t1'', ''v1'', ''t2'', ''v2'',
        ''id-groupe-1'', ''id-voice-groupe-1'', ''id-groupe-2'', ''id-voice-groupe-2'',
        ''id-groupe-3'', ''id-voice-groupe-3'']
 \<and> fst (cleanGroupChannels flaky_platform
           (snd (createGroupChannels event_env ok_platform 3
                   (initial_service, event_guild))))
     = Some PlatformFailure
 \<and> groupChannelsIdByGuildId
      (fst (snd (snd (cleanGroupChannels flaky_platform
                        (snd (createGroupChannels event_env ok_platform 3
                                (initial_service, event_guild)))))))
      ''guild''
     = Some [''id-groupe-1'', ''id-voice-groupe-1'', ''id-groupe-2'', ''id-voice-groupe-2'',
             ''id-groupe-3'', ''id-voice-groupe-3'']"
proof -
  let ?six = "[''id-groupe-1'', ''id-voice-groupe-1'', ''id-groupe-2'', ''id-voice-groupe-2'',
               ''id-groupe-3'', ''id-voice-groupe-3'']"
  let ?old = "[''t1'', ''v1'', ''t2'', ''v2'']"
  have ne: "''event'' \<noteq> []" "''c0'' \<noteq> []"
    by simp_all
  note three = createGroupChannels_three
                 [OF event_env_category ne(1) event_category ne(2) six_ids six_ok(1)]
  from three[of event_service]
  obtain guildA where
        cA0: "createGroupChannels event_env ok_platform 3 (event_service, event_guild)
               = (None,
                  saveState ok_platform (guild_id event_guild)
                    (event_service\<lparr>groupChannelsIdByGuildId :=
                       (groupChannelsIdByGuildId event_service)
                         (guild_id event_guild \<mapsto>
                            (case groupChannelsIdByGuildId event_service
                                    (guild_id event_guild) of
                               None \<Rightarrow> [] | Some ids \<Rightarrow> ids) @ ?six)\<rparr>),
                  guildA)"
    and gA: "guild_id guildA = guild_id event_guild"
    and rA: "\<forall>i. getChannel guildA i \<noteq> None
                \<longleftrightarrow> i \<in> set ?six \<or> getChannel event_guild i \<noteq> None"
    by (elim exE conjE) (rule that)
  define svcA where "svcA = saveState ok_platform (guild_id event_guild)
                       (event_service\<lparr>groupChannelsIdByGuildId :=
                          (groupChannelsIdByGuildId event_service)
                            (guild_id event_guild \<mapsto>
                               (case groupChannelsIdByGuildId event_service
                                       (guild_id event_guild) of
                                  None \<Rightarrow> [] | Some ids \<Rightarrow> ids) @ ?six)\<rparr>)"
  have cA: "createGroupChannels event_env ok_platform 3 (event_service, event_guild)
               = (None, svcA, guildA)"
    by (simp only: cA0 svcA_def)
  have lA: "groupChannelsIdByGuildId svcA (guild_id guildA) = Some (?old @ ?six)"
    by (simp add: svcA_def gA saveState_list event_service_list)
  from rA event_guild_resolves
  have allA: "\<forall>i \<in> set (?old @ ?six). getChannel guildA i \<noteq> None"
    by simp
  have first: "fst (snd (cleanGroupChannels ok_platform (svcA, guildA))) = ?old @ ?six"
    by (simp add: cleanGroupChannels_all_resolve[OF lA allA])
  from three[of initial_service]
  obtain guildB where
        cB0: "createGroupChannels event_env ok_platform 3 (initial_service, event_guild)
               = (None,
                  saveState ok_platform (guild_id event_guild)
                    (initial_service\<lparr>groupChannelsIdByGuildId :=
                       (groupChannelsIdByGuildId initial_service)
                         (guild_id event_guild \<mapsto>
                            (case groupChannelsIdByGuildId initial_service
                                    (guild_id event_guild) of
                               None \<Rightarrow> [] | Some ids \<Rightarrow> ids) @ ?six)\<rparr>),
                  guildB)"
    and gB: "guild_id guildB = guild_id event_guild"
    and rB: "\<forall>i. getChannel guildB i \<noteq> None
                \<longleftrightarrow> i \<in> set ?six \<or> getChannel event_guild i \<noteq> None"
    by (elim exE conjE) (rule that)
  define svcB where "svcB = saveState ok_platform (guild_id event_guild)
                       (initial_service\<lparr>groupChannelsIdByGuildId :=
                          (groupChannelsIdByGuildId initial_service)
                            (guild_id event_guild \<mapsto>
                               (case groupChannelsIdByGuildId initial_service
                                       (guild_id event_guild) of
                                  None \<Rightarrow> [] | Some ids \<Rightarrow> ids) @ ?six)\<rparr>)"
  have cB: "createGroupChannels event_env ok_platform 3 (initial_service, event_guild)
               = (None, svcB, guildB)"
    by (simp only: cB0 svcB_def)
  have lB: "groupChannelsIdByGuildId svcB (guild_id guildB) = Some ?six"
    by (simp add: svcB_def gB saveState_list initial_list)
  from rB have allB: "\<forall>i \<in> set ?six. getChannel guildB i \<noteq> None"
    by simp
  note cleanB = cleanGroupChannels_all_resolve[OF lB allB, of flaky_platform]
  have second: "fst (cleanGroupChannels flaky_platform (svcB, guildB)) = Some PlatformFailure"
    by (simp only: cleanB six_flaky if_False fst_conv)
  have third: "fst (snd (snd (cleanGroupChannels flaky_platform (svcB, guildB)))) = svcB"
    by (simp only: cleanB six_flaky if_False fst_conv snd_conv)
  have lB': "groupChannelsIdByGuildId svcB ''guild'' = Some ?six"
    using lB by (simp only: gB event_guild_id)
  show ?thesis
    by (simp only: cA cB snd_conv first second third lB' append_Cons append_Nil simp_thms)
qed

end
